theory Spec2Isabelle
  imports Complex_Main
begin

section \<open>Python values and failures\<close>

text \<open>
  The module \<^verbatim>\<open>MAGEMin_functions.py\<close> post-processes the output of the MAGEMin
  equilibrium solver. Its numbers are IEEE doubles; here they are real numbers with exact
  arithmetic, so rounding, infinities and NaN are outside this development.

  Every exception the code can raise is a value of \<open>py_error\<close>; a computation that can
  raise returns \<open>py_error + 'a\<close> with \<open>Inl\<close> for the exception. \<open>NonFinite\<close> is not a
  Python exception. It marks the two divisions by zero of the module: NumPy gives
  \<^verbatim>\<open>inf\<close> or \<^verbatim>\<open>nan\<close> there with a warning and carries on, a value the reals do not
  have (HOL's \<open>x / 0 = 0\<close> would be a wrong one), so the model of the call ends at
  \<open>NonFinite\<close> and says nothing about what the code computes from there.
\<close>

datatype py_error =
    ValueError
  | IndexError
  | KeyError
  | NonFinite
  | SolverError

text \<open>\<^verbatim>\<open>xs[i]\<close> for an index that is never negative: IndexError out of range.\<close>

definition list_get :: "'a list \<Rightarrow> nat \<Rightarrow> py_error + 'a" where
  "list_get xs i = (if i < length xs then Inr (xs ! i) else Inl IndexError)"

text \<open>\<^verbatim>\<open>xs.index(x)\<close>: the first position of \<open>x\<close>, ValueError when there is none.\<close>

fun list_index :: "'a list \<Rightarrow> 'a \<Rightarrow> py_error + nat" where
  "list_index [] x = Inl ValueError"
| "list_index (y # ys) x =
     (if y = x then Inr 0
      else (case list_index ys x of Inl e \<Rightarrow> Inl e | Inr i \<Rightarrow> Inr (Suc i)))"

text \<open>\<^verbatim>\<open>d[k]\<close> on a dict written as an association list: KeyError for a missing key.\<close>

definition dict_get :: "(string \<times> real) list \<Rightarrow> string \<Rightarrow> py_error + real" where
  "dict_get d k = (case map_of d k of None \<Rightarrow> Inl KeyError | Some v \<Rightarrow> Inr v)"

text \<open>
  A generator expression \<^verbatim>\<open>f(j) for j in ids\<close> consumed from left to right: the first
  element that raises ends the evaluation.
\<close>

fun map_result :: "('a \<Rightarrow> py_error + 'b) \<Rightarrow> 'a list \<Rightarrow> py_error + 'b list" where
  "map_result f [] = Inr []"
| "map_result f (x # xs) =
     (case f x of
        Inl e \<Rightarrow> Inl e
      | Inr y \<Rightarrow> (case map_result f xs of Inl e \<Rightarrow> Inl e | Inr ys \<Rightarrow> Inr (y # ys)))"

text \<open>
  NumPy's binary operations on one-dimensional arrays: elementwise for equal lengths, an
  array of length one is broadcast, anything else raises ValueError.
\<close>

definition np_binop ::
  "(real \<Rightarrow> real \<Rightarrow> real) \<Rightarrow> real list \<Rightarrow> real list \<Rightarrow> py_error + real list" where
  "np_binop f a b =
     (if length a = length b then Inr (map2 f a b)
      else if length a = 1 then Inr (map (f (hd a)) b)
      else if length b = 1 then Inr (map (\<lambda>x. f x (hd b)) a)
      else Inl ValueError)"

section \<open>The solver's output\<close>

text \<open>
  The fields of MAGEMin's output structure that the module reads. \<open>SS_vec\<close> holds the
  solution phases, \<open>PP_vec\<close> the pure phases; \<open>ph\<close> lists the names of the stable
  phases, the \<open>n_SS\<close> solution phases first.
\<close>

record SS_data =
  emNames :: "string list"
  emFrac :: "real list"
  emFrac_wt :: "real list"
  Comp :: "real list"
  Comp_wt :: "real list"
  rho :: real

record PP_data =
  rho_PP :: real

record MAGEMinOutput =
  ph :: "string list"
  ph_frac :: "real list"
  ph_frac_wt :: "real list"
  SS_vec :: "SS_data list"
  PP_vec :: "PP_data list"
  n_SS :: int
  oxides :: "string list"
  bulk :: "real list"
  bulk_wt :: "real list"

text \<open>
  The two collaborators the module calls but does not define: MAGEMin's
  \<^verbatim>\<open>single_point_minimization(P, T, data, X, Xoxides, sys_in)\<close> and
  \<^verbatim>\<open>calculate_molar_fractions\<close> of the bulk-rock helpers (a dict of end-member fractions
  to a dict of element fractions). Both are parameters of the model and both may raise.
  \<open>'d\<close> is the type of the opaque MAGEMin data handle.
\<close>

record 'd collaborators =
  single_point_minimization ::
    "real \<Rightarrow> real \<Rightarrow> 'd \<Rightarrow> real list \<Rightarrow> string list \<Rightarrow> string \<Rightarrow> py_error + MAGEMinOutput"
  calculate_molar_fractions :: "(string \<times> real) list \<Rightarrow> py_error + (string \<times> real) list"

section \<open>Result extraction\<close>

text \<open>
  Each extractor wraps its lookups in \<^verbatim>\<open>try: ... except: data = 0.\<close>; the bare
  \<^verbatim>\<open>except\<close> catches every exception, so the function is total and returns a number.
\<close>

definition extract_end_member_mol_frac :: "string \<Rightarrow> MAGEMinOutput \<Rightarrow> string \<Rightarrow> real" where
  "extract_end_member_mol_frac phase output end_member =
     (case list_index (ph output) phase of
        Inl e \<Rightarrow> 0
      | Inr phase_ind \<Rightarrow>
          (case list_get (SS_vec output) phase_ind of
             Inl e \<Rightarrow> 0
           | Inr ss \<Rightarrow>
               (case list_index (emNames ss) end_member of
                  Inl e \<Rightarrow> 0
                | Inr em_index \<Rightarrow>
                    (case list_get (emFrac ss) em_index of Inl e \<Rightarrow> 0 | Inr v \<Rightarrow> v))))"

definition extract_end_member_wt_frac :: "MAGEMinOutput \<Rightarrow> string \<Rightarrow> string \<Rightarrow> real" where
  "extract_end_member_wt_frac output phase end_member =
     (case list_index (ph output) phase of
        Inl e \<Rightarrow> 0
      | Inr phase_ind \<Rightarrow>
          (case list_get (SS_vec output) phase_ind of
             Inl e \<Rightarrow> 0
           | Inr ss \<Rightarrow>
               (case list_index (emNames ss) end_member of
                  Inl e \<Rightarrow> 0
                | Inr em_index \<Rightarrow>
                    (case list_get (emFrac_wt ss) em_index of Inl e \<Rightarrow> 0 | Inr v \<Rightarrow> v))))"

definition extract_phase_mol_frac :: "string \<Rightarrow> MAGEMinOutput \<Rightarrow> real" where
  "extract_phase_mol_frac phase output =
     (case list_index (ph output) phase of
        Inl e \<Rightarrow> 0
      | Inr phase_ind \<Rightarrow>
          (case list_get (ph_frac output) phase_ind of Inl e \<Rightarrow> 0 | Inr v \<Rightarrow> v))"

definition extract_phase_wt_frac :: "string \<Rightarrow> MAGEMinOutput \<Rightarrow> real" where
  "extract_phase_wt_frac phase output =
     (case list_index (ph output) phase of
        Inl e \<Rightarrow> 0
      | Inr phase_ind \<Rightarrow>
          (case list_get (ph_frac_wt output) phase_ind of Inl e \<Rightarrow> 0 | Inr v \<Rightarrow> v))"

subsection \<open>Volume fractions\<close>

text \<open>
  \<^verbatim>\<open>extract_phase_vol_frac\<close> rebuilds the volume fractions of the whole assemblage
  before it looks one phase up. The loop over \<^verbatim>\<open>enumerate(ph_names)\<close> is outside the
  \<^verbatim>\<open>try\<close>, so an index out of range there reaches the caller.

  \<open>phase_rho\<close> is the conditional expression
  \<^verbatim>\<open>SS_vec[j].rho if j < n_SS else PP_vec[j - n_SS].rho\<close>.
\<close>

definition phase_rho :: "MAGEMinOutput \<Rightarrow> nat \<Rightarrow> py_error + real" where
  "phase_rho output j =
     (if int j < n_SS output
      then (case list_get (SS_vec output) j of Inl e \<Rightarrow> Inl e | Inr s \<Rightarrow> Inr (rho s))
      else (case list_get (PP_vec output) (nat (int j - n_SS output)) of
              Inl e \<Rightarrow> Inl e
            | Inr p \<Rightarrow> Inr (rho_PP p)))"

text \<open>\<^verbatim>\<open>id = [j for j, p in enumerate(MAGEMinOutput.ph) if p == ph]\<close>\<close>

definition same_name_ids :: "MAGEMinOutput \<Rightarrow> string \<Rightarrow> nat list" where
  "same_name_ids output p = filter (\<lambda>j. ph output ! j = p) [0..<length (ph output)]"

text \<open>
  One pass of the loop body: the entry \<^verbatim>\<open>V[i, 0]\<close> for the phase name \<open>p\<close>, before
  normalisation: the summed weight fraction of the positions that carry the name,
  divided by the mean of their densities. The sum of the weight fractions is a NumPy
  double, so a mean density of 0 raises nothing: the quotient is \<^verbatim>\<open>inf\<close> or
  \<^verbatim>\<open>nan\<close>, which is \<open>NonFinite\<close> here.
\<close>

definition raw_volume :: "MAGEMinOutput \<Rightarrow> string \<Rightarrow> py_error + real" where
  "raw_volume output p =
     (let ids = same_name_ids output p in
      if ids = [] then Inr 0
      else
        (case map_result (phase_rho output) ids of
           Inl e \<Rightarrow> Inl e
         | Inr rhos \<Rightarrow>
             (let rho_mean = sum_list rhos / real (length ids) in
              (case map_result (list_get (ph_frac_wt output)) ids of
                 Inl e \<Rightarrow> Inl e
               | Inr ws \<Rightarrow>
                   if rho_mean = 0 then Inl NonFinite
                   else Inr (sum_list ws / rho_mean)))))"

text \<open>
  The array \<open>V\<close> after \<^verbatim>\<open>V /= np.sum(V)\<close>. NumPy divides an empty array without
  complaint; a non-empty array whose sum is zero becomes NaN or infinite, which is
  \<open>NonFinite\<close> here.
\<close>

definition volume_array :: "MAGEMinOutput \<Rightarrow> py_error + real list" where
  "volume_array output =
     (case map_result (raw_volume output) (ph output) of
        Inl e \<Rightarrow> Inl e
      | Inr V \<Rightarrow>
          if V = [] then Inr []
          else if sum_list V = 0 then Inl NonFinite
          else Inr (map (\<lambda>v. v / sum_list V) V))"

definition extract_phase_vol_frac :: "string \<Rightarrow> MAGEMinOutput \<Rightarrow> py_error + real" where
  "extract_phase_vol_frac phase output =
     (case volume_array output of
        Inl e \<Rightarrow> Inl e
      | Inr V \<Rightarrow>
          Inr (case list_index (ph output) phase of
                 Inl e \<Rightarrow> 0
               | Inr phase_ind \<Rightarrow> (case list_get V phase_ind of Inl e \<Rightarrow> 0 | Inr v \<Rightarrow> v)))"

section \<open>Evaluating one point\<close>

record point_result =
  gt_frac :: real
  gt_wt :: real
  gt_vol :: real
  py :: real
  alm :: real
  spss :: real
  gr :: real
  kho :: real
  out :: MAGEMinOutput

definition gt_single_point_calc_endmembers ::
  "'d collaborators \<Rightarrow> real \<Rightarrow> real \<Rightarrow> 'd \<Rightarrow> real list \<Rightarrow> string list \<Rightarrow> string
     \<Rightarrow> py_error + point_result" where
  "gt_single_point_calc_endmembers env P T data bulk_in oxides_in sys_in =
     (case single_point_minimization env P T data bulk_in oxides_in sys_in of
        Inl e \<Rightarrow> Inl e
      | Inr output \<Rightarrow>
          if ''g'' \<in> set (ph output) then
            (case extract_phase_vol_frac ''g'' output of
               Inl e \<Rightarrow> Inl e
             | Inr vol \<Rightarrow>
                 Inr \<lparr>gt_frac = extract_phase_mol_frac ''g'' output,
                      gt_wt = extract_phase_wt_frac ''g'' output,
                      gt_vol = vol,
                      py = extract_end_member_mol_frac ''g'' output ''py'',
                      alm = extract_end_member_mol_frac ''g'' output ''alm'',
                      spss = extract_end_member_mol_frac ''g'' output ''spss'',
                      gr = extract_end_member_mol_frac ''g'' output ''gr'',
                      kho = extract_end_member_mol_frac ''g'' output ''kho'',
                      out = output\<rparr>)
          else
            Inr \<lparr>gt_frac = 0, gt_wt = 0, gt_vol = 0, py = 0, alm = 0, spss = 0, gr = 0,
                 kho = 0, out = output\<rparr>)"

section \<open>The path loop\<close>

text \<open>
  \<^verbatim>\<open>garnet_over_path\<close> returns nine arrays. The loop also fills five end-member arrays
  that it does not return, rebinds the arguments \<^verbatim>\<open>X\<close> and \<^verbatim>\<open>Xoxides\<close> when it
  fractionates, and keeps the fractions of the first point. All of it is the loop state.
  The three \<open>_initial\<close> variables are unbound until the pass \<open>i = 0\<close> assigns them; the
  value they have in the initial state is never read.
\<close>

record path_result =
  gt_mol_frac :: "real list"
  gt_wt_frac :: "real list"
  gt_vol_frac :: "real list"
  d_gt_mol_frac :: "real list"
  d_gt_wt_frac :: "real list"
  Mgi :: "real list"
  Mni :: "real list"
  Fei :: "real list"
  Cai :: "real list"

record path_state = path_result +
  X :: "real list"
  Xoxides :: "string list"
  py_arr :: "real list"
  alm_arr :: "real list"
  spss_arr :: "real list"
  gr_arr :: "real list"
  kho_arr :: "real list"
  gt_mol_frac_initial :: real
  gt_wt_frac_initial :: real
  gt_vol_frac_initial :: real

text \<open>Lines 175 to 191: every array is \<^verbatim>\<open>np.zeros(len(P))\<close>.\<close>

definition init_state :: "nat \<Rightarrow> real list \<Rightarrow> string list \<Rightarrow> path_state" where
  "init_state n bulk_in oxides_in =
     \<lparr>gt_mol_frac = replicate n 0, gt_wt_frac = replicate n 0, gt_vol_frac = replicate n 0,
      d_gt_mol_frac = replicate n 0, d_gt_wt_frac = replicate n 0,
      Mgi = replicate n 0, Mni = replicate n 0, Fei = replicate n 0, Cai = replicate n 0,
      X = bulk_in, Xoxides = oxides_in,
      py_arr = replicate n 0, alm_arr = replicate n 0, spss_arr = replicate n 0,
      gr_arr = replicate n 0, kho_arr = replicate n 0,
      gt_mol_frac_initial = 0, gt_wt_frac_initial = 0, gt_vol_frac_initial = 0\<rparr>"

text \<open>
  Lines 194 to 213, the calls of a pass that can raise: \<^verbatim>\<open>P[i]\<close> and \<^verbatim>\<open>T[i]\<close> are
  read, the point is evaluated with the current \<open>X\<close> and \<open>Xoxides\<close>, the end-members are
  converted, and the four elements are looked up. The result is the point and Mg, Mn, Fe,
  Ca. The source stores the end-members between these calls; an exception discards the
  arrays with the whole call, so the model does every store after them.
\<close>

definition evaluate_step ::
  "'d collaborators \<Rightarrow> real list \<Rightarrow> real list \<Rightarrow> 'd \<Rightarrow> string \<Rightarrow> nat \<Rightarrow> path_state
     \<Rightarrow> py_error + (point_result \<times> real \<times> real \<times> real \<times> real)" where
  "evaluate_step env P T data sys_in i st =
     (case list_get P i of
        Inl e \<Rightarrow> Inl e
      | Inr P_i \<Rightarrow>
     (case list_get T i of
        Inl e \<Rightarrow> Inl e
      | Inr T_i \<Rightarrow>
     (case gt_single_point_calc_endmembers env P_i T_i data (X st) (Xoxides st) sys_in of
        Inl e \<Rightarrow> Inl e
      | Inr r \<Rightarrow>
     (case calculate_molar_fractions env
             [(''py'', py r), (''alm'', alm r), (''gr'', gr r), (''spss'', spss r),
              (''kho'', kho r)] of
        Inl e \<Rightarrow> Inl e
      | Inr mole_fractions \<Rightarrow>
     (case dict_get mole_fractions ''Mg'' of
        Inl e \<Rightarrow> Inl e
      | Inr mg \<Rightarrow>
     (case dict_get mole_fractions ''Mn'' of
        Inl e \<Rightarrow> Inl e
      | Inr mn \<Rightarrow>
     (case dict_get mole_fractions ''Fe'' of
        Inl e \<Rightarrow> Inl e
      | Inr fe \<Rightarrow>
     (case dict_get mole_fractions ''Ca'' of
        Inl e \<Rightarrow> Inl e
      | Inr ca \<Rightarrow> Inr (r, mg, mn, fe, ca)))))))))"

text \<open>
  Lines 196 to 225: the stores of a pass. The first pass records the fractions of the
  first point; every pass stores the fractions minus those of the first point.
\<close>

definition record_point ::
  "nat \<Rightarrow> point_result \<times> real \<times> real \<times> real \<times> real \<Rightarrow> path_state \<Rightarrow> path_state" where
  "record_point i v st =
     (case v of (r, mg, mn, fe, ca) \<Rightarrow>
      (let mol0 = (if i = 0 then gt_frac r else gt_mol_frac_initial st);
           wt0 = (if i = 0 then gt_wt r else gt_wt_frac_initial st);
           vol0 = (if i = 0 then gt_vol r else gt_vol_frac_initial st)
       in st\<lparr>py_arr := (py_arr st)[i := py r],
              alm_arr := (alm_arr st)[i := alm r],
              spss_arr := (spss_arr st)[i := spss r],
              gr_arr := (gr_arr st)[i := gr r],
              kho_arr := (kho_arr st)[i := kho r],
              Mgi := (Mgi st)[i := mg],
              Mni := (Mni st)[i := mn],
              Fei := (Fei st)[i := fe],
              Cai := (Cai st)[i := ca],
              gt_mol_frac_initial := mol0,
              gt_wt_frac_initial := wt0,
              gt_vol_frac_initial := vol0,
              gt_mol_frac := (gt_mol_frac st)[i := gt_frac r - mol0],
              gt_wt_frac := (gt_wt_frac st)[i := gt_wt r - wt0],
              gt_vol_frac := (gt_vol_frac st)[i := gt_vol r - vol0]\<rparr>))"

text \<open>
  Lines 238 to 243, the first half of the body of \<^verbatim>\<open>if fractionate == True\<close>: the
  increments of the stored mole and weight fractions over the previous pass.
\<close>

definition store_increments :: "nat \<Rightarrow> path_state \<Rightarrow> path_state" where
  "store_increments i st =
     st\<lparr>d_gt_mol_frac := (d_gt_mol_frac st)
           [i := (if i = 0 then gt_mol_frac st ! 0
                  else gt_mol_frac st ! i - gt_mol_frac st ! (i - 1))],
        d_gt_wt_frac := (d_gt_wt_frac st)
           [i := (if i = 0 then gt_wt_frac st ! 0
                  else gt_wt_frac st ! i - gt_wt_frac st ! (i - 1))]\<rparr>"

text \<open>
  Lines 246 to 253, the second half: if the garnet fraction of this point is positive,
  \<open>Xoxides\<close> becomes the solver's oxide list and \<open>X\<close> is rebuilt from the solver's bulk
  vector on the basis \<open>sys_in\<close> names, as
  \<^verbatim>\<open>out.bulk_wt - (out.bulk_wt * out.SS_vec[garnet_ind].Comp_wt * d_gt_wt_frac[i])\<close>.
  There is no \<^verbatim>\<open>else\<close> after the \<^verbatim>\<open>elif\<close> (the one in the source is commented
  out): another basis leaves \<open>X\<close> as it is.
\<close>

definition deplete :: "real list \<Rightarrow> real list \<Rightarrow> real \<Rightarrow> py_error + real list" where
  "deplete b c d =
     (case np_binop (*) b c of
        Inl e \<Rightarrow> Inl e
      | Inr bc \<Rightarrow> np_binop (-) b (map (\<lambda>x. x * d) bc))"

definition fractionate_bulk ::
  "string \<Rightarrow> nat \<Rightarrow> point_result \<Rightarrow> path_state \<Rightarrow> py_error + path_state" where
  "fractionate_bulk sys_in i r st =
     (if gt_frac r > 0 then
        (case list_index (ph (out r)) ''g'' of
           Inl e \<Rightarrow> Inl e
         | Inr garnet_ind \<Rightarrow>
             (if sys_in = ''wt'' then
                (case list_get (SS_vec (out r)) garnet_ind of
                   Inl e \<Rightarrow> Inl e
                 | Inr g \<Rightarrow>
                     (case deplete (bulk_wt (out r)) (Comp_wt g) (d_gt_wt_frac st ! i) of
                        Inl e \<Rightarrow> Inl e
                      | Inr b \<Rightarrow> Inr (st\<lparr>Xoxides := oxides (out r), X := b\<rparr>)))
              else if sys_in = ''mol'' then
                (case list_get (SS_vec (out r)) garnet_ind of
                   Inl e \<Rightarrow> Inl e
                 | Inr g \<Rightarrow>
                     (case deplete (bulk (out r)) (Comp g) (d_gt_mol_frac st ! i) of
                        Inl e \<Rightarrow> Inl e
                      | Inr b \<Rightarrow> Inr (st\<lparr>Xoxides := oxides (out r), X := b\<rparr>)))
              else Inr (st\<lparr>Xoxides := oxides (out r)\<rparr>)))
      else Inr st)"

text \<open>
  One pass of \<^verbatim>\<open>for i in range(len(P))\<close>. The argument \<open>fractionate\<close> defaults to the
  integer 0 and is compared with \<^verbatim>\<open>True\<close>, which equals 1 in Python.
\<close>

definition loop_body ::
  "'d collaborators \<Rightarrow> real list \<Rightarrow> real list \<Rightarrow> 'd \<Rightarrow> string \<Rightarrow> int \<Rightarrow> nat \<Rightarrow> path_state
     \<Rightarrow> py_error + path_state" where
  "loop_body env P T data sys_in fractionate i st =
     (case evaluate_step env P T data sys_in i st of
        Inl e \<Rightarrow> Inl e
      | Inr v \<Rightarrow>
          (let st1 = record_point i v st in
           if fractionate = 1
           then fractionate_bulk sys_in i (fst v) (store_increments i st1)
           else Inr st1))"

text \<open>
  \<open>path_loop \<dots> k\<close> is the state after the first \<open>k\<close> passes, or the exception that
  ended the loop. The pass \<open>i\<close> starts in the state \<open>path_loop \<dots> i\<close>.
\<close>

primrec path_loop ::
  "'d collaborators \<Rightarrow> real list \<Rightarrow> real list \<Rightarrow> 'd \<Rightarrow> real list \<Rightarrow> string list \<Rightarrow> string \<Rightarrow> int
     \<Rightarrow> nat \<Rightarrow> py_error + path_state" where
  "path_loop env P T data bulk_in oxides_in sys_in fractionate 0 =
     Inr (init_state (length P) bulk_in oxides_in)"
| "path_loop env P T data bulk_in oxides_in sys_in fractionate (Suc k) =
     (case path_loop env P T data bulk_in oxides_in sys_in fractionate k of
        Inl e \<Rightarrow> Inl e
      | Inr st \<Rightarrow> loop_body env P T data sys_in fractionate k st)"

definition garnet_over_path ::
  "'d collaborators \<Rightarrow> real list \<Rightarrow> real list \<Rightarrow> 'd \<Rightarrow> real list \<Rightarrow> string list \<Rightarrow> string \<Rightarrow> int
     \<Rightarrow> py_error + path_result" where
  "garnet_over_path env P T data bulk_in oxides_in sys_in fractionate =
     (case path_loop env P T data bulk_in oxides_in sys_in fractionate (length P) of
        Inl e \<Rightarrow> Inl e
      | Inr st \<Rightarrow>
          Inr \<lparr>gt_mol_frac = gt_mol_frac st, gt_wt_frac = gt_wt_frac st,
               gt_vol_frac = gt_vol_frac st, d_gt_mol_frac = d_gt_mol_frac st,
               d_gt_wt_frac = d_gt_wt_frac st, Mgi = Mgi st, Mni = Mni st, Fei = Fei st,
               Cai = Cai st\<rparr>)"

subsection \<open>Observing a run\<close>

text \<open>
  What the pass \<open>i\<close> of a run evaluates: the point and the elements computed in the
  state the first \<open>i\<close> passes left. \<open>point_at\<close> is the evaluator's result of that
  pass; \<open>bulk_at\<close> and \<open>oxides_at\<close> are the bulk vector and the oxide list the first
  \<open>i\<close> passes leave, which the pass \<open>i\<close> hands to the solver.
\<close>

definition step_at ::
  "'d collaborators \<Rightarrow> real list \<Rightarrow> real list \<Rightarrow> 'd \<Rightarrow> real list \<Rightarrow> string list \<Rightarrow> string \<Rightarrow> int
     \<Rightarrow> nat \<Rightarrow> py_error + (point_result \<times> real \<times> real \<times> real \<times> real)" where
  "step_at env P T data bulk_in oxides_in sys_in fractionate i =
     (case path_loop env P T data bulk_in oxides_in sys_in fractionate i of
        Inl e \<Rightarrow> Inl e
      | Inr st \<Rightarrow> evaluate_step env P T data sys_in i st)"

definition point_at ::
  "'d collaborators \<Rightarrow> real list \<Rightarrow> real list \<Rightarrow> 'd \<Rightarrow> real list \<Rightarrow> string list \<Rightarrow> string \<Rightarrow> int
     \<Rightarrow> nat \<Rightarrow> py_error + point_result" where
  "point_at env P T data bulk_in oxides_in sys_in fractionate i =
     (case step_at env P T data bulk_in oxides_in sys_in fractionate i of
        Inl e \<Rightarrow> Inl e
      | Inr v \<Rightarrow> Inr (fst v))"

definition bulk_at ::
  "'d collaborators \<Rightarrow> real list \<Rightarrow> real list \<Rightarrow> 'd \<Rightarrow> real list \<Rightarrow> string list \<Rightarrow> string \<Rightarrow> int
     \<Rightarrow> nat \<Rightarrow> py_error + real list" where
  "bulk_at env P T data bulk_in oxides_in sys_in fractionate i =
     (case path_loop env P T data bulk_in oxides_in sys_in fractionate i of
        Inl e \<Rightarrow> Inl e
      | Inr st \<Rightarrow> Inr (X st))"

definition oxides_at ::
  "'d collaborators \<Rightarrow> real list \<Rightarrow> real list \<Rightarrow> 'd \<Rightarrow> real list \<Rightarrow> string list \<Rightarrow> string \<Rightarrow> int
     \<Rightarrow> nat \<Rightarrow> py_error + string list" where
  "oxides_at env P T data bulk_in oxides_in sys_in fractionate i =
     (case path_loop env P T data bulk_in oxides_in sys_in fractionate i of
        Inl e \<Rightarrow> Inl e
      | Inr st \<Rightarrow> Inr (Xoxides st))"

subsection \<open>A stub solver for concrete runs\<close>

text \<open>
  A deterministic stand-in for MAGEMin: garnet and quartz, the garnet mode (mole and
  weight) \<open>shift + T / 100\<close>, both densities 1, the bulk vector echoed, and the oxides
  reported in the solver's own order. The converter stub adds pyrope and khoharite into
  Mg.
\<close>

definition stub_output :: "real \<Rightarrow> real list \<Rightarrow> MAGEMinOutput" where
  "stub_output f b =
     \<lparr>ph = [''g'', ''q''], ph_frac = [f, 1 - f], ph_frac_wt = [f, 1 - f],
      SS_vec = [\<lparr>emNames = [''py'', ''alm'', ''gr'', ''spss''],
                 emFrac = [3 / 5, 3 / 10, 1 / 10, 0],
                 emFrac_wt = [1 / 2, 2 / 5, 1 / 10, 0],
                 Comp = [1 / 2, 1 / 4], Comp_wt = [2 / 5, 1 / 5], rho = 1\<rparr>],
      PP_vec = [\<lparr>rho_PP = 1\<rparr>], n_SS = 1,
      oxides = [''SiO2'', ''FeO''], bulk = b, bulk_wt = b\<rparr>"

definition stub_solver ::
  "real \<Rightarrow> real \<Rightarrow> real \<Rightarrow> unit \<Rightarrow> real list \<Rightarrow> string list \<Rightarrow> string \<Rightarrow> py_error + MAGEMinOutput" where
  "stub_solver shift P T data bulk_in oxides_in sys_in = Inr (stub_output (shift + T / 100) bulk_in)"

definition stub_converter :: "(string \<times> real) list \<Rightarrow> py_error + (string \<times> real) list" where
  "stub_converter fr =
     (case (dict_get fr ''py'', dict_get fr ''alm'', dict_get fr ''gr'', dict_get fr ''spss'',
            dict_get fr ''kho'') of
        (Inr a, Inr b, Inr c, Inr d, Inr e) \<Rightarrow>
          Inr [(''Mg'', a + e), (''Fe'', b), (''Mn'', d), (''Ca'', c)]
      | _ \<Rightarrow> Inl KeyError)"

definition stub_env :: "real \<Rightarrow> unit collaborators" where
  "stub_env shift =
     \<lparr>single_point_minimization = stub_solver shift,
      calculate_molar_fractions = stub_converter\<rparr>"

text \<open>What the evaluator returns on the stub for a garnet mode \<open>f\<close> and a bulk vector \<open>b\<close>.\<close>

definition stub_point :: "real \<Rightarrow> real list \<Rightarrow> point_result" where
  "stub_point f b =
     \<lparr>gt_frac = f, gt_wt = f, gt_vol = f, py = 3 / 5, alm = 3 / 10, spss = 0, gr = 1 / 10,
      kho = 0, out = stub_output f b\<rparr>"

text \<open>
  The arrays of a path of three points on which the garnet mode rises by 0, 0.05 and 0.12
  over its first value, for a run that stores no increments and for one that does.
\<close>

definition stub_growth :: path_result where
  "stub_growth =
     \<lparr>gt_mol_frac = [0, 1 / 20, 3 / 25], gt_wt_frac = [0, 1 / 20, 3 / 25],
      gt_vol_frac = [0, 1 / 20, 3 / 25],
      d_gt_mol_frac = [0, 0, 0], d_gt_wt_frac = [0, 0, 0],
      Mgi = [3 / 5, 3 / 5, 3 / 5], Mni = [0, 0, 0], Fei = [3 / 10, 3 / 10, 3 / 10],
      Cai = [1 / 10, 1 / 10, 1 / 10]\<rparr>"

definition stub_growth_fractionated :: path_result where
  "stub_growth_fractionated =
     \<lparr>gt_mol_frac = [0, 1 / 20, 3 / 25], gt_wt_frac = [0, 1 / 20, 3 / 25],
      gt_vol_frac = [0, 1 / 20, 3 / 25],
      d_gt_mol_frac = [0, 1 / 20, 7 / 100], d_gt_wt_frac = [0, 1 / 20, 7 / 100],
      Mgi = [3 / 5, 3 / 5, 3 / 5], Mni = [0, 0, 0], Fei = [3 / 10, 3 / 10, 3 / 10],
      Cai = [1 / 10, 1 / 10, 1 / 10]\<rparr>"

text \<open>A second stub whose assemblage is quartz alone: garnet is absent at every point.\<close>

definition quartz_output :: "real list \<Rightarrow> MAGEMinOutput" where
  "quartz_output b =
     \<lparr>ph = [''q''], ph_frac = [1], ph_frac_wt = [1], SS_vec = [],
      PP_vec = [\<lparr>rho_PP = 53 / 20\<rparr>], n_SS = 0,
      oxides = [''SiO2'', ''FeO''], bulk = b, bulk_wt = b\<rparr>"

definition quartz_env :: "unit collaborators" where
  "quartz_env =
     \<lparr>single_point_minimization = (\<lambda>P T data bulk_in oxides_in sys_in. Inr (quartz_output bulk_in)),
      calculate_molar_fractions = stub_converter\<rparr>"

definition quartz_point :: "real list \<Rightarrow> point_result" where
  "quartz_point b =
     \<lparr>gt_frac = 0, gt_wt = 0, gt_vol = 0, py = 0, alm = 0, spss = 0, gr = 0, kho = 0,
      out = quartz_output b\<rparr>"

definition quartz_growth :: path_result where
  "quartz_growth =
     \<lparr>gt_mol_frac = [0, 0], gt_wt_frac = [0, 0], gt_vol_frac = [0, 0],
      d_gt_mol_frac = [0, 0], d_gt_wt_frac = [0, 0],
      Mgi = [0, 0], Mni = [0, 0], Fei = [0, 0], Cai = [0, 0]\<rparr>"

subsection \<open>Well-formed assemblages\<close>

text \<open>
  An assemblage with positive weight fractions and densities: it lists at least one
  phase, and every listed position has a weight fraction and a density (in \<open>SS_vec\<close> or
  \<open>PP_vec\<close>, as \<open>n_SS\<close> decides), both greater than 0.
\<close>

definition positive_entry :: "MAGEMinOutput \<Rightarrow> nat \<Rightarrow> bool" where
  "positive_entry output j \<longleftrightarrow>
     (case list_get (ph_frac_wt output) j of Inl e \<Rightarrow> False | Inr w \<Rightarrow> 0 < w) \<and>
     (case phase_rho output j of Inl e \<Rightarrow> False | Inr d \<Rightarrow> 0 < d)"

definition positive_phases :: "MAGEMinOutput \<Rightarrow> bool" where
  "positive_phases output \<longleftrightarrow>
     ph output \<noteq> [] \<and> list_all (positive_entry output) [0..<length (ph output)]"

text \<open>
  An assemblage that lists feldspar twice (two solution phases of densities 2 and 4, a
  quarter of the weight each) beside quartz (density 6, half of the weight), as the
  solver does for two coexisting feldspars; and the same rock with the two feldspars
  reported as one entry of their summed weight and mean density.
\<close>

definition twin_output :: MAGEMinOutput where
  "twin_output =
     \<lparr>ph = [''fsp'', ''fsp'', ''q''], ph_frac = [1 / 4, 1 / 4, 1 / 2],
      ph_frac_wt = [1 / 4, 1 / 4, 1 / 2],
      SS_vec = [\<lparr>emNames = [], emFrac = [], emFrac_wt = [], Comp = [], Comp_wt = [], rho = 2\<rparr>,
                \<lparr>emNames = [], emFrac = [], emFrac_wt = [], Comp = [], Comp_wt = [], rho = 4\<rparr>],
      PP_vec = [\<lparr>rho_PP = 6\<rparr>], n_SS = 2,
      oxides = [''SiO2''], bulk = [1], bulk_wt = [1]\<rparr>"

definition merged_output :: MAGEMinOutput where
  "merged_output =
     \<lparr>ph = [''fsp'', ''q''], ph_frac = [1 / 2, 1 / 2], ph_frac_wt = [1 / 2, 1 / 2],
      SS_vec = [\<lparr>emNames = [], emFrac = [], emFrac_wt = [], Comp = [], Comp_wt = [], rho = 3\<rparr>],
      PP_vec = [\<lparr>rho_PP = 6\<rparr>], n_SS = 1,
      oxides = [''SiO2''], bulk = [1], bulk_wt = [1]\<rparr>"

section \<open>Properties of the lookups\<close>

lemma list_index_absent: "x \<notin> set xs \<Longrightarrow> list_index xs x = Inl ValueError"
  by (induction xs) auto

lemma list_index_present: "x \<in> set xs \<Longrightarrow> \<exists>i. list_index xs x = Inr i"
  by (induction xs) auto

lemma list_index_Inr: "list_index xs x = Inr i \<Longrightarrow> i < length xs \<and> xs ! i = x"
  by (induction xs arbitrary: i) (auto split: if_splits sum.splits)

lemma map_result_positive:
  assumes "\<forall>x \<in> set xs. \<exists>y. f x = Inr y \<and> 0 < (y::real)"
  shows "\<exists>ys. map_result f xs = Inr ys \<and> length ys = length xs \<and> (\<forall>y \<in> set ys. 0 < y)"
  using assms
proof (induction xs)
  case Nil
  then show ?case by simp
next
  case (Cons x xs)
  then obtain y ys where "f x = Inr y" "0 < y" "map_result f xs = Inr ys"
    "length ys = length xs" "\<forall>y \<in> set ys. 0 < y"
    by auto
  then show ?case by simp
qed

lemma map_result_nth:
  assumes "map_result f xs = Inr ys"
  shows "length ys = length xs \<and> (\<forall>i < length xs. f (xs ! i) = Inr (ys ! i))"
  using assms
proof (induction xs arbitrary: ys)
  case Nil
  then show ?case by simp
next
  case (Cons x xs)
  from Cons.prems obtain y zs where y: "f x = Inr y" and zs: "map_result f xs = Inr zs"
    and ys: "ys = y # zs"
    by (auto split: sum.splits)
  from Cons.IH [OF zs] y ys show ?case
    by (auto simp: nth_Cons split: nat.splits)
qed

lemma map_result_eqI:
  assumes "length ys = length xs" and "\<forall>i < length xs. f (xs ! i) = Inr (ys ! i)"
  shows "map_result f xs = Inr ys"
  using assms
proof (induction xs arbitrary: ys)
  case Nil
  then show ?case by simp
next
  case (Cons x xs)
  from Cons.prems(1) obtain y zs where ys: "ys = y # zs" and len: "length zs = length xs"
    by (cases ys) auto
  from Cons.prems(2) ys have "f x = Inr y" by auto
  moreover from Cons.prems(2) ys have "\<forall>i < length xs. f (xs ! i) = Inr (zs ! i)" by auto
  from Cons.IH [OF len this] have "map_result f xs = Inr zs" .
  ultimately show ?case using ys by simp
qed

lemma sum_list_positive:
  assumes "xs \<noteq> []" and "\<forall>x \<in> set xs. 0 < (x::real)"
  shows "0 < sum_list xs"
  using assms
proof (induction xs)
  case Nil
  then show ?case by simp
next
  case (Cons x xs)
  then show ?case
    by (cases "xs = []") (auto intro: add_pos_pos)
qed

lemma sum_list_normalised:
  assumes "s \<noteq> (0::real)"
  shows "sum_list (map (\<lambda>v. v / s) xs) = sum_list xs / s"
  by (induction xs) (simp_all add: add_divide_distrib)

section \<open>The extractors on an absent phase or end-member\<close>

text \<open>
  Claim C8. A phase that is not in the assemblage has mole fraction 0, weight fraction 0
  and end-member mole fraction 0; a phase that is in the assemblage at position \<open>k\<close> has
  end-member mole fraction 0 for an end-member that is not in the name list of
  \<open>SS_vec[k]\<close> (also when \<open>SS_vec\<close> has no entry \<open>k\<close>). The three functions return a
  number and not \<open>py_error + real\<close>: every exception of their lookups is mapped to 0
  inside them, so none reaches the caller.
\<close>

theorem absent_queries_return_zero:
  "(phase \<notin> set (ph output) \<longrightarrow>
      extract_phase_mol_frac phase output = 0 \<and>
      extract_phase_wt_frac phase output = 0 \<and>
      extract_end_member_mol_frac phase output end_member = 0) \<and>
   (list_index (ph output) phase = Inr k \<and>
      (length (SS_vec output) \<le> k \<or> end_member \<notin> set (emNames (SS_vec output ! k))) \<longrightarrow>
      extract_end_member_mol_frac phase output end_member = 0)"
  by (auto simp: extract_phase_mol_frac_def extract_phase_wt_frac_def
      extract_end_member_mol_frac_def list_index_absent list_get_def)

text \<open>
  On the stub output with a quarter of garnet: biotite is absent, garnet is present with
  pyrope but has no khoharite.
\<close>

theorem absent_queries_return_zero_witness:
  "extract_phase_mol_frac ''bi'' (stub_output (1 / 4) [1, 2]) = 0 \<and>
   extract_phase_wt_frac ''bi'' (stub_output (1 / 4) [1, 2]) = 0 \<and>
   extract_end_member_mol_frac ''bi'' (stub_output (1 / 4) [1, 2]) ''py'' = 0 \<and>
   extract_phase_mol_frac ''g'' (stub_output (1 / 4) [1, 2]) = 1 / 4 \<and>
   extract_end_member_mol_frac ''g'' (stub_output (1 / 4) [1, 2]) ''py'' = 3 / 5 \<and>
   extract_end_member_mol_frac ''g'' (stub_output (1 / 4) [1, 2]) ''kho'' = 0"
proof -
  have absent: "''bi'' \<notin> set (ph (stub_output (1 / 4) [1, 2]))"
    by (simp add: stub_output_def)
  have present: "list_index (ph (stub_output (1 / 4) [1, 2])) ''g'' = Inr 0"
    by (simp add: stub_output_def)
  have no_kho: "''kho'' \<notin> set (emNames (SS_vec (stub_output (1 / 4) [1, 2]) ! 0))"
    by (simp add: stub_output_def)
  have here: "extract_phase_mol_frac ''g'' (stub_output (1 / 4) [1, 2]) = 1 / 4 \<and>
      extract_end_member_mol_frac ''g'' (stub_output (1 / 4) [1, 2]) ''py'' = 3 / 5"
    by (simp add: stub_output_def extract_phase_mol_frac_def extract_end_member_mol_frac_def
        list_get_def)
  from absent present no_kho here
    absent_queries_return_zero [of "''bi''" "stub_output (1 / 4) [1, 2]" "''py''"]
    absent_queries_return_zero [of "''g''" "stub_output (1 / 4) [1, 2]" "''kho''" 0]
  show ?thesis by blast
qed

section \<open>Volume fractions of a well-formed assemblage\<close>

lemma positive_phases_entry:
  assumes "positive_phases output" and "j < length (ph output)"
  shows "\<exists>w. list_get (ph_frac_wt output) j = Inr w \<and> 0 < w"
    and "\<exists>d. phase_rho output j = Inr d \<and> 0 < d"
proof -
  from assms have "positive_entry output j"
    by (simp add: positive_phases_def list_all_iff)
  then show "\<exists>w. list_get (ph_frac_wt output) j = Inr w \<and> 0 < w"
    and "\<exists>d. phase_rho output j = Inr d \<and> 0 < d"
    by (auto simp: positive_entry_def split: sum.splits)
qed

lemma same_name_ids_listed:
  assumes "i < length (ph output)"
  shows "i \<in> set (same_name_ids output (ph output ! i))"
    and "\<forall>j \<in> set (same_name_ids output p). j < length (ph output)"
  using assms by (auto simp: same_name_ids_def)

lemma raw_volume_positive:
  assumes wf: "positive_phases output" and i: "i < length (ph output)"
  shows "\<exists>v. raw_volume output (ph output ! i) = Inr v \<and> 0 < v"
proof -
  define ids where "ids = same_name_ids output (ph output ! i)"
  from same_name_ids_listed [OF i] have ids: "ids \<noteq> []" "\<forall>j \<in> set ids. j < length (ph output)"
    by (auto simp: ids_def)
  from ids(2) positive_phases_entry(2) [OF wf]
  have "\<forall>j \<in> set ids. \<exists>d. phase_rho output j = Inr d \<and> 0 < d" by blast
  from map_result_positive [OF this]
  obtain rhos where rhos: "map_result (phase_rho output) ids = Inr rhos"
    "length rhos = length ids" "\<forall>d \<in> set rhos. 0 < d"
    by blast
  from ids(2) positive_phases_entry(1) [OF wf]
  have "\<forall>j \<in> set ids. \<exists>w. list_get (ph_frac_wt output) j = Inr w \<and> 0 < w" by blast
  from map_result_positive [OF this]
  obtain ws where ws: "map_result (list_get (ph_frac_wt output)) ids = Inr ws"
    "length ws = length ids" "\<forall>w \<in> set ws. 0 < w"
    by blast
  from ids(1) rhos(2) ws(2) have "rhos \<noteq> []" "ws \<noteq> []" by auto
  from sum_list_positive [OF this(1) rhos(3)] sum_list_positive [OF this(2) ws(3)] ids(1)
  have mean: "0 < sum_list rhos / real (length ids)" and total: "0 < sum_list ws"
    and rho_total: "0 < sum_list rhos"
    by simp_all
  from total mean have "0 < sum_list ws / (sum_list rhos / real (length ids))"
    by (rule divide_pos_pos)
  moreover from ids(1) rhos(1) ws(1) rho_total
  have "raw_volume output (ph output ! i)
          = Inr (sum_list ws / (sum_list rhos / real (length ids)))"
    by (simp add: raw_volume_def ids_def [symmetric] Let_def)
  ultimately show ?thesis by blast
qed

text \<open>
  The array after normalisation sums to 1 over the positions of the phase list, and the
  query of a listed phase reads its first position.
\<close>

lemma volume_array_normalised:
  assumes wf: "positive_phases output"
  shows "\<exists>U. map_result (raw_volume output) (ph output) = Inr U \<and>
           volume_array output = Inr (map (\<lambda>v. v / sum_list U) U) \<and>
           sum_list (map (\<lambda>v. v / sum_list U) U) = 1 \<and>
           map_result (\<lambda>p. extract_phase_vol_frac p output) (ph output)
             = Inr (map (\<lambda>v. v / sum_list U) U)"
proof -
  have "\<forall>p \<in> set (ph output). \<exists>v. raw_volume output p = Inr v \<and> 0 < v"
    using raw_volume_positive [OF wf] by (auto simp: in_set_conv_nth)
  from map_result_positive [OF this]
  obtain U where U: "map_result (raw_volume output) (ph output) = Inr U"
    "length U = length (ph output)" "\<forall>v \<in> set U. 0 < v"
    by blast
  from wf U(2) have "U \<noteq> []" by (auto simp: positive_phases_def)
  from sum_list_positive [OF this U(3)] have total: "sum_list U \<noteq> 0" by simp
  define V where "V = map (\<lambda>v. v / sum_list U) U"
  from U(1) \<open>U \<noteq> []\<close> total have array: "volume_array output = Inr V"
    by (simp add: volume_array_def V_def)
  from total have one: "sum_list V = 1"
    by (simp add: V_def sum_list_normalised)
  have len: "length V = length (ph output)"
    by (simp add: V_def U(2))
  have "extract_phase_vol_frac (ph output ! i) output = Inr (V ! i)" if i: "i < length (ph output)" for i
  proof -
    from i have "ph output ! i \<in> set (ph output)" by simp
    from list_index_present [OF this]
    obtain k where k: "list_index (ph output) (ph output ! i) = Inr k" ..
    from list_index_Inr [OF k] have less: "k < length (ph output)"
      and same: "ph output ! k = ph output ! i"
      by simp_all
    from map_result_nth [OF U(1)] less i same have "U ! k = U ! i"
      by (metis Inr_inject)
    with less i U(2) have "V ! k = V ! i" by (simp add: V_def)
    with array k less len show ?thesis
      by (simp add: extract_phase_vol_frac_def list_get_def)
  qed
  with len have "map_result (\<lambda>p. extract_phase_vol_frac p output) (ph output) = Inr V"
    by (intro map_result_eqI) simp_all
  with U(1) array one show ?thesis unfolding V_def by blast
qed

text \<open>
  Where every phase is listed once, the entry of a phase is its weight fraction divided
  by its density, and the fractions the queries return for the phases are these entries
  divided by their sum: they sum to 1 over the phases.
\<close>

lemma singleton_list:
  assumes "distinct xs" and "set xs = {a}"
  shows "xs = [a]"
proof (cases xs)
  case Nil
  with assms(2) show ?thesis by simp
next
  case (Cons y ys)
  with assms have "y = a" "set ys \<subseteq> {a}" "a \<notin> set ys" by auto
  then have "ys = []" by (cases ys) auto
  with Cons \<open>y = a\<close> show ?thesis by simp
qed

lemma same_name_ids_distinct:
  assumes "distinct (ph output)" and "i < length (ph output)"
  shows "same_name_ids output (ph output ! i) = [i]"
proof -
  have "distinct (same_name_ids output (ph output ! i))"
    by (simp add: same_name_ids_def)
  moreover from assms have "set (same_name_ids output (ph output ! i)) = {i}"
    by (auto simp: same_name_ids_def nth_eq_iff_index_eq)
  ultimately show ?thesis by (rule singleton_list)
qed

lemma raw_volume_distinct:
  assumes wf: "positive_phases output" and names: "distinct (ph output)"
    and i: "i < length (ph output)"
  shows "\<exists>w d. list_get (ph_frac_wt output) i = Inr w \<and> phase_rho output i = Inr d \<and>
           raw_volume output (ph output ! i) = Inr (w / d)"
proof -
  from positive_phases_entry [OF wf i]
  obtain w d where w: "list_get (ph_frac_wt output) i = Inr w"
    and d: "phase_rho output i = Inr d" "0 < d"
    by blast
  with same_name_ids_distinct [OF names i]
  have "raw_volume output (ph output ! i) = Inr (w / d)"
    by (simp add: raw_volume_def)
  with w d(1) show ?thesis by blast
qed

lemma volume_fractions_of_distinct_phases:
  assumes wf: "positive_phases output" and names: "distinct (ph output)"
  shows "\<exists>ws ds.
           map_result (list_get (ph_frac_wt output)) [0..<length (ph output)] = Inr ws \<and>
           map_result (phase_rho output) [0..<length (ph output)] = Inr ds \<and>
           map_result (\<lambda>p. extract_phase_vol_frac p output) (ph output)
             = Inr (map (\<lambda>v. v / sum_list (map2 (/) ws ds)) (map2 (/) ws ds)) \<and>
           sum_list (map (\<lambda>v. v / sum_list (map2 (/) ws ds)) (map2 (/) ws ds)) = 1"
proof -
  let ?n = "length (ph output)"
  from volume_array_normalised [OF wf]
  obtain U where U: "map_result (raw_volume output) (ph output) = Inr U"
    and one: "sum_list (map (\<lambda>v. v / sum_list U) U) = 1"
    and queries: "map_result (\<lambda>p. extract_phase_vol_frac p output) (ph output)
             = Inr (map (\<lambda>v. v / sum_list U) U)"
    by blast
  have "\<forall>j \<in> set [0..<?n]. \<exists>w. list_get (ph_frac_wt output) j = Inr w \<and> 0 < w"
    using positive_phases_entry(1) [OF wf] by simp
  from map_result_positive [OF this]
  obtain ws where ws: "map_result (list_get (ph_frac_wt output)) [0..<?n] = Inr ws"
    by blast
  have "\<forall>j \<in> set [0..<?n]. \<exists>d. phase_rho output j = Inr d \<and> 0 < d"
    using positive_phases_entry(2) [OF wf] by simp
  from map_result_positive [OF this]
  obtain ds where ds: "map_result (phase_rho output) [0..<?n] = Inr ds"
    by blast
  from map_result_nth [OF U] map_result_nth [OF ws] map_result_nth [OF ds]
  have len: "length U = ?n" "length ws = ?n" "length ds = ?n"
    and U_nth: "\<forall>i < ?n. raw_volume output (ph output ! i) = Inr (U ! i)"
    and ws_nth: "\<forall>i < ?n. list_get (ph_frac_wt output) ([0..<?n] ! i) = Inr (ws ! i)"
    and ds_nth: "\<forall>i < ?n. phase_rho output ([0..<?n] ! i) = Inr (ds ! i)"
    by simp_all
  have entry: "U ! i = ws ! i / ds ! i" if i: "i < ?n" for i
  proof -
    from raw_volume_distinct [OF wf names i]
    obtain w d where w: "list_get (ph_frac_wt output) i = Inr w"
      and d: "phase_rho output i = Inr d"
      and v: "raw_volume output (ph output ! i) = Inr (w / d)"
      by blast
    from U_nth i v have "U ! i = w / d" by simp
    moreover from ws_nth i w have "ws ! i = w" by simp
    moreover from ds_nth i d have "ds ! i = d" by simp
    ultimately show ?thesis by simp
  qed
  have "U = map2 (/) ws ds"
  proof (rule nth_equalityI)
    show "length U = length (map2 (/) ws ds)"
      by (simp add: len)
  next
    fix i
    assume "i < length U"
    with len have "i < ?n" by simp
    from entry [OF this] this len show "U ! i = map2 (/) ws ds ! i"
      by simp
  qed
  with ws ds one queries show ?thesis by blast
qed

lemma twin_raw_volume:
  "raw_volume twin_output ''fsp'' = Inr (1 / 6)"
  "raw_volume twin_output ''q'' = Inr (1 / 12)"
proof -
  have ids: "same_name_ids twin_output ''fsp'' = [0, Suc 0]"
    "same_name_ids twin_output ''q'' = [Suc (Suc 0)]"
    by (simp_all add: same_name_ids_def twin_output_def upt_rec)
  show "raw_volume twin_output ''fsp'' = Inr (1 / 6)"
    "raw_volume twin_output ''q'' = Inr (1 / 12)"
    by (simp_all add: raw_volume_def ids)
      (simp_all add: twin_output_def phase_rho_def list_get_def)
qed

lemma twin_volume_array: "volume_array twin_output = Inr [2 / 5, 2 / 5, 1 / 5]"
proof -
  have "ph twin_output = [''fsp'', ''fsp'', ''q'']"
    by (simp add: twin_output_def)
  then show ?thesis
    by (simp add: volume_array_def twin_raw_volume)
qed

lemma merged_raw_volume:
  "raw_volume merged_output ''fsp'' = Inr (1 / 6)"
  "raw_volume merged_output ''q'' = Inr (1 / 12)"
proof -
  have ids: "same_name_ids merged_output ''fsp'' = [0]"
    "same_name_ids merged_output ''q'' = [Suc 0]"
    by (simp_all add: same_name_ids_def merged_output_def upt_rec)
  show "raw_volume merged_output ''fsp'' = Inr (1 / 6)"
    "raw_volume merged_output ''q'' = Inr (1 / 12)"
    by (simp_all add: raw_volume_def ids)
      (simp_all add: merged_output_def phase_rho_def list_get_def)
qed

lemma merged_volume_array: "volume_array merged_output = Inr [2 / 3, 1 / 3]"
proof -
  have "ph merged_output = [''fsp'', ''q'']"
    by (simp add: merged_output_def)
  then show ?thesis
    by (simp add: volume_array_def merged_raw_volume)
qed

text \<open>
  Claim C9 at an assemblage that lists a phase name twice. The weight fractions and the
  densities are positive. Feldspar has the summed weight fraction \<open>1/2\<close> and the mean
  density 3, quartz the weight fraction \<open>1/2\<close> and the density 6, so the volumes by
  phase are \<open>1/6\<close> and \<open>1/12\<close> and the volume fractions by phase would be \<open>2/3\<close> and
  \<open>1/3\<close>, as the queries return them where the feldspar is reported as one entry. With
  the two entries the array has three positions, the feldspar volume stands in two of
  them, and the queries return \<open>2/5\<close> for feldspar and \<open>1/5\<close> for quartz: over the
  phases the volume fractions sum to \<open>3/5\<close>.
\<close>

theorem volume_fractions_of_repeated_name:
  "positive_phases twin_output \<and>
   remdups (ph twin_output) = [''fsp'', ''q''] \<and>
   raw_volume twin_output ''fsp'' = Inr (1 / 6) \<and>
   raw_volume twin_output ''q'' = Inr (1 / 12) \<and>
   volume_array twin_output = Inr [2 / 5, 2 / 5, 1 / 5] \<and>
   map_result (\<lambda>p. extract_phase_vol_frac p twin_output) (remdups (ph twin_output))
     = Inr [2 / 5, 1 / 5] \<and>
   sum_list [2 / 5, 1 / 5 :: real] = 3 / 5 \<and>
   positive_phases merged_output \<and>
   map_result (\<lambda>p. extract_phase_vol_frac p merged_output) (ph merged_output)
     = Inr [2 / 3, 1 / 3] \<and>
   sum_list [2 / 3, 1 / 3 :: real] = 1"
proof -
  have twin: "positive_phases twin_output"
    by (simp add: positive_phases_def positive_entry_def phase_rho_def list_get_def
        twin_output_def upt_rec)
  have merged: "positive_phases merged_output"
    by (simp add: positive_phases_def positive_entry_def phase_rho_def list_get_def
        merged_output_def upt_rec)
  have names: "ph twin_output = [''fsp'', ''fsp'', ''q'']" "ph merged_output = [''fsp'', ''q'']"
    by (simp_all add: twin_output_def merged_output_def)
  have "extract_phase_vol_frac ''fsp'' twin_output = Inr (2 / 5)"
    "extract_phase_vol_frac ''q'' twin_output = Inr (1 / 5)"
    "extract_phase_vol_frac ''fsp'' merged_output = Inr (2 / 3)"
    "extract_phase_vol_frac ''q'' merged_output = Inr (1 / 3)"
    by (simp_all add: extract_phase_vol_frac_def twin_volume_array merged_volume_array names
        list_get_def)
  with twin merged names twin_raw_volume twin_volume_array show ?thesis
    by simp
qed

section \<open>One pass of the loop\<close>

text \<open>What \<open>record_point\<close> stores and what it leaves alone.\<close>

lemma record_point_bulk:
  "X (record_point i v st) = X st"
  "Xoxides (record_point i v st) = Xoxides st"
  by (simp_all add: record_point_def Let_def split: prod.splits)

lemma record_point_deltas:
  "d_gt_mol_frac (record_point i v st) = d_gt_mol_frac st"
  "d_gt_wt_frac (record_point i v st) = d_gt_wt_frac st"
  by (simp_all add: record_point_def Let_def split: prod.splits)

lemma record_point_initial:
  "gt_mol_frac_initial (record_point i v st) =
     (if i = 0 then gt_frac (fst v) else gt_mol_frac_initial st)"
  "gt_wt_frac_initial (record_point i v st) =
     (if i = 0 then gt_wt (fst v) else gt_wt_frac_initial st)"
  "gt_vol_frac_initial (record_point i v st) =
     (if i = 0 then gt_vol (fst v) else gt_vol_frac_initial st)"
  by (simp_all add: record_point_def Let_def split: prod.splits)

lemma record_point_growth:
  "gt_mol_frac (record_point i v st) =
     (gt_mol_frac st)[i := gt_frac (fst v) - gt_mol_frac_initial (record_point i v st)]"
  "gt_wt_frac (record_point i v st) =
     (gt_wt_frac st)[i := gt_wt (fst v) - gt_wt_frac_initial (record_point i v st)]"
  "gt_vol_frac (record_point i v st) =
     (gt_vol_frac st)[i := gt_vol (fst v) - gt_vol_frac_initial (record_point i v st)]"
  by (simp_all add: record_point_def Let_def split: prod.splits)

text \<open>What \<open>store_increments\<close> stores and what it leaves alone.\<close>

lemma store_increments_bulk:
  "X (store_increments i st) = X st"
  "Xoxides (store_increments i st) = Xoxides st"
  by (simp_all add: store_increments_def)

lemma store_increments_growth:
  "gt_mol_frac (store_increments i st) = gt_mol_frac st"
  "gt_wt_frac (store_increments i st) = gt_wt_frac st"
  "gt_vol_frac (store_increments i st) = gt_vol_frac st"
  "gt_mol_frac_initial (store_increments i st) = gt_mol_frac_initial st"
  "gt_wt_frac_initial (store_increments i st) = gt_wt_frac_initial st"
  "gt_vol_frac_initial (store_increments i st) = gt_vol_frac_initial st"
  by (simp_all add: store_increments_def)

lemma store_increments_deltas:
  "d_gt_mol_frac (store_increments i st) = (d_gt_mol_frac st)
     [i := (if i = 0 then gt_mol_frac st ! 0
            else gt_mol_frac st ! i - gt_mol_frac st ! (i - 1))]"
  "d_gt_wt_frac (store_increments i st) = (d_gt_wt_frac st)
     [i := (if i = 0 then gt_wt_frac st ! 0
            else gt_wt_frac st ! i - gt_wt_frac st ! (i - 1))]"
  by (simp_all add: store_increments_def)

text \<open>
  \<open>fractionate_bulk\<close> changes the bulk vector and the oxide list and nothing else.
\<close>

lemma fractionate_bulk_cases:
  assumes "fractionate_bulk sys_in i r st = Inr st'"
  obtains "st' = st"
  | b where "st' = st\<lparr>Xoxides := oxides (out r), X := b\<rparr>"
  | "st' = st\<lparr>Xoxides := oxides (out r)\<rparr>"
  using assms by (auto simp: fractionate_bulk_def split: if_splits sum.splits)

lemma fractionate_bulk_growth:
  assumes "fractionate_bulk sys_in i r st = Inr st'"
  shows "gt_mol_frac st' = gt_mol_frac st"
    and "gt_wt_frac st' = gt_wt_frac st"
    and "gt_vol_frac st' = gt_vol_frac st"
    and "gt_mol_frac_initial st' = gt_mol_frac_initial st"
    and "gt_wt_frac_initial st' = gt_wt_frac_initial st"
    and "gt_vol_frac_initial st' = gt_vol_frac_initial st"
    and "d_gt_mol_frac st' = d_gt_mol_frac st"
    and "d_gt_wt_frac st' = d_gt_wt_frac st"
  by (rule fractionate_bulk_cases [OF assms]; simp)+

lemma fractionate_bulk_no_garnet:
  assumes "fractionate_bulk sys_in i r st = Inr st'" and "gt_frac r \<le> 0"
  shows "st' = st"
  using assms by (simp add: fractionate_bulk_def)

lemma fractionate_bulk_oxides:
  assumes "fractionate_bulk sys_in i r st = Inr st'" and "0 < gt_frac r"
  shows "Xoxides st' = oxides (out r)"
proof (cases "list_index (ph (out r)) ''g''")
  case (Inl e)
  with assms show ?thesis by (simp add: fractionate_bulk_def)
next
  case (Inr k)
  with assms show ?thesis
    by (cases "list_get (SS_vec (out r)) k")
      (auto simp: fractionate_bulk_def split: if_splits sum.splits)
qed

lemma fractionate_bulk_other_basis:
  assumes "fractionate_bulk sys_in i r st = Inr st'"
    and "sys_in \<noteq> ''wt''" and "sys_in \<noteq> ''mol''"
  shows "X st' = X st"
proof (cases "list_index (ph (out r)) ''g''")
  case (Inl e)
  with assms show ?thesis by (simp add: fractionate_bulk_def split: if_splits)
next
  case (Inr k)
  with assms show ?thesis by (auto simp: fractionate_bulk_def split: if_splits)
qed

lemma fractionate_bulk_other_basis_succeeds:
  assumes "sys_in \<noteq> ''wt''" and "sys_in \<noteq> ''mol''"
    and "0 < gt_frac r \<longrightarrow> ''g'' \<in> set (ph (out r))"
  shows "\<exists>st'. fractionate_bulk sys_in i r st = Inr st'"
proof (cases "0 < gt_frac r")
  case True
  with assms(3) have "''g'' \<in> set (ph (out r))" by simp
  from list_index_present [OF this]
  obtain k where "list_index (ph (out r)) ''g'' = Inr k" ..
  with True assms(1,2) show ?thesis
    by (simp add: fractionate_bulk_def)
next
  case False
  then show ?thesis
    by (simp add: fractionate_bulk_def)
qed

lemma fractionate_bulk_wt:
  assumes "fractionate_bulk ''wt'' i r st = Inr st'" and "0 < gt_frac r"
  shows "\<exists>k. list_index (ph (out r)) ''g'' = Inr k \<and> k < length (SS_vec (out r)) \<and>
           deplete (bulk_wt (out r)) (Comp_wt (SS_vec (out r) ! k)) (d_gt_wt_frac st ! i)
             = Inr (X st')"
proof (cases "list_index (ph (out r)) ''g''")
  case (Inl e)
  with assms show ?thesis by (simp add: fractionate_bulk_def)
next
  case (Inr k)
  with assms show ?thesis
    by (cases "k < length (SS_vec (out r))")
      (auto simp: fractionate_bulk_def list_get_def split: sum.splits)
qed

lemma fractionate_bulk_mol:
  assumes "fractionate_bulk ''mol'' i r st = Inr st'" and "0 < gt_frac r"
  shows "\<exists>k. list_index (ph (out r)) ''g'' = Inr k \<and> k < length (SS_vec (out r)) \<and>
           deplete (bulk (out r)) (Comp (SS_vec (out r) ! k)) (d_gt_mol_frac st ! i)
             = Inr (X st')"
proof (cases "list_index (ph (out r)) ''g''")
  case (Inl e)
  with assms show ?thesis by (simp add: fractionate_bulk_def)
next
  case (Inr k)
  with assms show ?thesis
    by (cases "k < length (SS_vec (out r))")
      (auto simp: fractionate_bulk_def list_get_def split: sum.splits)
qed

text \<open>On vectors of one length the NumPy expression is the elementwise formula.\<close>

lemma deplete_elementwise:
  assumes "deplete b c d = Inr x" and "length b = length c"
  shows "x = map2 (\<lambda>bj cj. bj - bj * cj * d) b c"
proof -
  have "length (map (\<lambda>y. y * d) (map2 (*) b c)) = length b"
    using assms(2) by simp
  with assms have "x = map2 (-) b (map (\<lambda>y. y * d) (map2 (*) b c))"
    by (simp add: deplete_def np_binop_def)
  also have "\<dots> = map2 (\<lambda>bj cj. bj - bj * cj * d) b c"
    using assms(2) by (induction b c rule: list_induct2) simp_all
  finally show ?thesis .
qed

section \<open>The loop\<close>

lemma evaluate_step_index:
  assumes "evaluate_step env P T data sys_in i st = Inr v"
  shows "i < length P" and "i < length T"
  using assms by (auto simp: evaluate_step_def list_get_def split: sum.splits if_splits)

lemma evaluate_step_point:
  assumes "evaluate_step env P T data sys_in i st = Inr v"
  shows "gt_single_point_calc_endmembers env (P ! i) (T ! i) data (X st) (Xoxides st) sys_in
           = Inr (fst v)"
  using assms by (auto simp: evaluate_step_def list_get_def split: sum.splits if_splits)

text \<open>Without garnet in the assemblage the evaluator never calls the extractors.\<close>

lemma point_without_garnet:
  assumes "gt_single_point_calc_endmembers env p t data b ox sys_in = Inr r"
    and "''g'' \<notin> set (ph (out r))"
  shows "gt_frac r = 0"
  using assms
  by (auto simp: gt_single_point_calc_endmembers_def split: sum.splits if_splits)

lemma path_loop_Suc_elim:
  assumes "path_loop env P T data b0 o0 sys_in fr (Suc k) = Inr st'"
  obtains st v where "path_loop env P T data b0 o0 sys_in fr k = Inr st"
    and "evaluate_step env P T data sys_in k st = Inr v"
    and "fr = 1 \<longrightarrow>
           fractionate_bulk sys_in k (fst v) (store_increments k (record_point k v st)) = Inr st'"
    and "fr \<noteq> 1 \<longrightarrow> st' = record_point k v st"
  using assms by (auto simp: loop_body_def Let_def split: sum.splits if_splits)

lemma path_loop_prefix:
  assumes "path_loop env P T data b0 o0 sys_in fr n = Inr st" and "i \<le> n"
  shows "\<exists>s. path_loop env P T data b0 o0 sys_in fr i = Inr s"
  using assms
proof (induction n arbitrary: st)
  case 0
  then show ?case by simp
next
  case (Suc n)
  show ?case
  proof (cases "i = Suc n")
    case True
    with Suc.prems(1) show ?thesis by blast
  next
    case False
    with Suc.prems(2) have "i \<le> n" by simp
    moreover from Suc.prems(1) obtain s where
      "path_loop env P T data b0 o0 sys_in fr n = Inr s"
      by (rule path_loop_Suc_elim)
    ultimately show ?thesis by (rule Suc.IH [rotated])
  qed
qed

lemma step_at_loop:
  assumes "path_loop env P T data b0 o0 sys_in fr k = Inr st"
  shows "step_at env P T data b0 o0 sys_in fr k = evaluate_step env P T data sys_in k st"
  using assms by (simp add: step_at_def)

lemma path_loop_steps:
  assumes "path_loop env P T data b0 o0 sys_in fr n = Inr st" and "i < n"
  shows "\<exists>v. step_at env P T data b0 o0 sys_in fr i = Inr v"
proof -
  from assms have "Suc i \<le> n" by simp
  from path_loop_prefix [OF assms(1) this]
  obtain s' where "path_loop env P T data b0 o0 sys_in fr (Suc i) = Inr s'" ..
  then obtain s v where "path_loop env P T data b0 o0 sys_in fr i = Inr s"
    and "evaluate_step env P T data sys_in i s = Inr v"
    by (rule path_loop_Suc_elim)
  then have "step_at env P T data b0 o0 sys_in fr i = Inr v"
    by (simp add: step_at_def)
  then show ?thesis ..
qed

text \<open>The stores of the pass \<open>k\<close>, read off the state after it.\<close>

lemma path_loop_Suc_growth:
  assumes next_state: "path_loop env P T data b0 o0 sys_in fr (Suc k) = Inr st'"
    and state: "path_loop env P T data b0 o0 sys_in fr k = Inr st"
    and step: "step_at env P T data b0 o0 sys_in fr k = Inr v"
  shows "gt_mol_frac st' = (gt_mol_frac st)[k := gt_frac (fst v) - gt_mol_frac_initial st']"
    and "gt_wt_frac st' = (gt_wt_frac st)[k := gt_wt (fst v) - gt_wt_frac_initial st']"
    and "gt_vol_frac st' = (gt_vol_frac st)[k := gt_vol (fst v) - gt_vol_frac_initial st']"
    and "gt_mol_frac_initial st' = (if k = 0 then gt_frac (fst v) else gt_mol_frac_initial st)"
    and "gt_wt_frac_initial st' = (if k = 0 then gt_wt (fst v) else gt_wt_frac_initial st)"
    and "gt_vol_frac_initial st' = (if k = 0 then gt_vol (fst v) else gt_vol_frac_initial st)"
proof -
  from step state have ev: "evaluate_step env P T data sys_in k st = Inr v"
    by (simp add: step_at_def)
  from next_state state ev have body: "loop_body env P T data sys_in fr k st = Inr st'"
    by simp
  have "gt_mol_frac st' = gt_mol_frac (record_point k v st) \<and>
        gt_wt_frac st' = gt_wt_frac (record_point k v st) \<and>
        gt_vol_frac st' = gt_vol_frac (record_point k v st) \<and>
        gt_mol_frac_initial st' = gt_mol_frac_initial (record_point k v st) \<and>
        gt_wt_frac_initial st' = gt_wt_frac_initial (record_point k v st) \<and>
        gt_vol_frac_initial st' = gt_vol_frac_initial (record_point k v st)"
  proof (cases "fr = 1")
    case True
    with body ev have
      "fractionate_bulk sys_in k (fst v) (store_increments k (record_point k v st)) = Inr st'"
      by (simp add: loop_body_def Let_def)
    from fractionate_bulk_growth [OF this] show ?thesis
      by (simp add: store_increments_growth)
  next
    case False
    with body ev have "st' = record_point k v st"
      by (simp add: loop_body_def Let_def)
    then show ?thesis by simp
  qed
  then show "gt_mol_frac st' = (gt_mol_frac st)[k := gt_frac (fst v) - gt_mol_frac_initial st']"
    and "gt_wt_frac st' = (gt_wt_frac st)[k := gt_wt (fst v) - gt_wt_frac_initial st']"
    and "gt_vol_frac st' = (gt_vol_frac st)[k := gt_vol (fst v) - gt_vol_frac_initial st']"
    and "gt_mol_frac_initial st' = (if k = 0 then gt_frac (fst v) else gt_mol_frac_initial st)"
    and "gt_wt_frac_initial st' = (if k = 0 then gt_wt (fst v) else gt_wt_frac_initial st)"
    and "gt_vol_frac_initial st' = (if k = 0 then gt_vol (fst v) else gt_vol_frac_initial st)"
    by (simp_all add: record_point_growth record_point_initial)
qed

lemma path_loop_Suc_deltas:
  assumes next_state: "path_loop env P T data b0 o0 sys_in fr (Suc k) = Inr st'"
    and state: "path_loop env P T data b0 o0 sys_in fr k = Inr st"
  shows "d_gt_mol_frac st' =
           (if fr = 1
            then (d_gt_mol_frac st)
                   [k := (if k = 0 then gt_mol_frac st' ! 0
                          else gt_mol_frac st' ! k - gt_mol_frac st' ! (k - 1))]
            else d_gt_mol_frac st)"
    and "d_gt_wt_frac st' =
           (if fr = 1
            then (d_gt_wt_frac st)
                   [k := (if k = 0 then gt_wt_frac st' ! 0
                          else gt_wt_frac st' ! k - gt_wt_frac st' ! (k - 1))]
            else d_gt_wt_frac st)"
proof -
  from next_state state obtain v where
    ev: "evaluate_step env P T data sys_in k st = Inr v"
    and body: "loop_body env P T data sys_in fr k st = Inr st'"
    by (auto simp: loop_body_def split: sum.splits)
  have "d_gt_mol_frac st' =
           (if fr = 1
            then (d_gt_mol_frac st)
                   [k := (if k = 0 then gt_mol_frac st' ! 0
                          else gt_mol_frac st' ! k - gt_mol_frac st' ! (k - 1))]
            else d_gt_mol_frac st) \<and>
        d_gt_wt_frac st' =
           (if fr = 1
            then (d_gt_wt_frac st)
                   [k := (if k = 0 then gt_wt_frac st' ! 0
                          else gt_wt_frac st' ! k - gt_wt_frac st' ! (k - 1))]
            else d_gt_wt_frac st)"
  proof (cases "fr = 1")
    case True
    with body ev have
      "fractionate_bulk sys_in k (fst v) (store_increments k (record_point k v st)) = Inr st'"
      by (simp add: loop_body_def Let_def)
    from fractionate_bulk_growth [OF this] True show ?thesis
      by (simp add: store_increments_growth store_increments_deltas record_point_deltas)
  next
    case False
    with body ev have "st' = record_point k v st"
      by (simp add: loop_body_def Let_def)
    with False show ?thesis by (simp add: record_point_deltas)
  qed
  then show "d_gt_mol_frac st' =
           (if fr = 1
            then (d_gt_mol_frac st)
                   [k := (if k = 0 then gt_mol_frac st' ! 0
                          else gt_mol_frac st' ! k - gt_mol_frac st' ! (k - 1))]
            else d_gt_mol_frac st)"
    and "d_gt_wt_frac st' =
           (if fr = 1
            then (d_gt_wt_frac st)
                   [k := (if k = 0 then gt_wt_frac st' ! 0
                          else gt_wt_frac st' ! k - gt_wt_frac st' ! (k - 1))]
            else d_gt_wt_frac st)"
    by simp_all
qed

subsection \<open>Invariants of the loop\<close>

lemma path_loop_lengths:
  assumes "path_loop env P T data b0 o0 sys_in fr k = Inr st"
  shows "length (gt_mol_frac st) = length P \<and> length (gt_wt_frac st) = length P \<and>
         length (gt_vol_frac st) = length P \<and> length (d_gt_mol_frac st) = length P \<and>
         length (d_gt_wt_frac st) = length P"
  using assms
proof (induction k arbitrary: st)
  case 0
  then show ?case by (auto simp: init_state_def)
next
  case (Suc k)
  from Suc.prems obtain s v where s: "path_loop env P T data b0 o0 sys_in fr k = Inr s"
    and ev: "evaluate_step env P T data sys_in k s = Inr v"
    by (rule path_loop_Suc_elim)
  from ev have step: "step_at env P T data b0 o0 sys_in fr k = Inr v"
    by (simp only: step_at_loop [OF s])
  note g = path_loop_Suc_growth(1-3) [OF Suc.prems s step]
    and d = path_loop_Suc_deltas [OF Suc.prems s]
  from Suc.IH [OF s] show ?case by (simp add: g d)
qed

text \<open>Without fractionation the pass stores a point and touches nothing else.\<close>

lemma path_loop_no_fractionation:
  assumes "fr \<noteq> 1" and "path_loop env P T data b0 o0 sys_in fr k = Inr st"
  shows "X st = b0 \<and> Xoxides st = o0 \<and> d_gt_mol_frac st = replicate (length P) 0 \<and>
         d_gt_wt_frac st = replicate (length P) 0"
  using assms(2)
proof (induction k arbitrary: st)
  case 0
  then show ?case by (auto simp: init_state_def)
next
  case (Suc k)
  from Suc.prems obtain s v where s: "path_loop env P T data b0 o0 sys_in fr k = Inr s"
    and "fr \<noteq> 1 \<longrightarrow> st = record_point k v s"
    by (rule path_loop_Suc_elim)
  with assms(1) have "st = record_point k v s" by simp
  with Suc.IH [OF s] show ?case
    by (simp add: record_point_bulk record_point_deltas)
qed

text \<open>A basis other than \<open>wt\<close> and \<open>mol\<close> never changes the bulk vector.\<close>

lemma path_loop_other_basis:
  assumes "sys_in \<noteq> ''wt''" and "sys_in \<noteq> ''mol''"
    and "path_loop env P T data b0 o0 sys_in fr k = Inr st"
  shows "X st = b0"
  using assms(3)
proof (induction k arbitrary: st)
  case 0
  then show ?case by (auto simp: init_state_def)
next
  case (Suc k)
  from Suc.prems obtain s v where s: "path_loop env P T data b0 o0 sys_in fr k = Inr s"
    and on: "fr = 1 \<longrightarrow>
      fractionate_bulk sys_in k (fst v) (store_increments k (record_point k v s)) = Inr st"
    and off: "fr \<noteq> 1 \<longrightarrow> st = record_point k v s"
    by (rule path_loop_Suc_elim)
  show ?case
  proof (cases "fr = 1")
    case True
    with on have
      "fractionate_bulk sys_in k (fst v) (store_increments k (record_point k v s)) = Inr st"
      by simp
    from fractionate_bulk_other_basis [OF this assms(1,2)] Suc.IH [OF s] show ?thesis
      by (simp add: store_increments_bulk record_point_bulk)
  next
    case False
    with off Suc.IH [OF s] show ?thesis by (simp add: record_point_bulk)
  qed
qed

text \<open>After the first pass the baseline is the raw fraction of the first point.\<close>

lemma path_loop_baseline:
  assumes "path_loop env P T data b0 o0 sys_in fr (Suc k) = Inr st"
    and first: "step_at env P T data b0 o0 sys_in fr 0 = Inr v0"
  shows "gt_mol_frac_initial st = gt_frac (fst v0) \<and>
         gt_wt_frac_initial st = gt_wt (fst v0) \<and>
         gt_vol_frac_initial st = gt_vol (fst v0)"
  using assms(1)
proof (induction k arbitrary: st)
  case 0
  have init: "path_loop env P T data b0 o0 sys_in fr 0 = Inr (init_state (length P) b0 o0)"
    by simp
  from path_loop_Suc_growth(4-6) [OF "0.prems" init first] show ?case by simp
next
  case (Suc k)
  from Suc.prems obtain s v where s: "path_loop env P T data b0 o0 sys_in fr (Suc k) = Inr s"
    and ev: "evaluate_step env P T data sys_in (Suc k) s = Inr v"
    by (rule path_loop_Suc_elim)
  from ev have step: "step_at env P T data b0 o0 sys_in fr (Suc k) = Inr v"
    by (simp only: step_at_loop [OF s])
  from path_loop_Suc_growth(4-6) [OF Suc.prems s step] Suc.IH [OF s] show ?case by simp
qed

text \<open>
  Every stored fraction is the raw fraction of its pass minus the raw fraction of the
  first pass, and later passes do not touch it.
\<close>

lemma path_loop_growth:
  assumes "path_loop env P T data b0 o0 sys_in fr k = Inr st" and "i < k"
    and this_step: "step_at env P T data b0 o0 sys_in fr i = Inr v"
    and first: "step_at env P T data b0 o0 sys_in fr 0 = Inr v0"
  shows "gt_mol_frac st ! i = gt_frac (fst v) - gt_frac (fst v0) \<and>
         gt_wt_frac st ! i = gt_wt (fst v) - gt_wt (fst v0) \<and>
         gt_vol_frac st ! i = gt_vol (fst v) - gt_vol (fst v0)"
  using assms(1,2)
proof (induction k arbitrary: st)
  case 0
  then show ?case by simp
next
  case (Suc k)
  from Suc.prems(1) obtain s w where s: "path_loop env P T data b0 o0 sys_in fr k = Inr s"
    and ev: "evaluate_step env P T data sys_in k s = Inr w"
    by (rule path_loop_Suc_elim)
  from ev have step: "step_at env P T data b0 o0 sys_in fr k = Inr w"
    by (simp only: step_at_loop [OF s])
  note g = path_loop_Suc_growth(1-3) [OF Suc.prems(1) s step]
  note base = path_loop_baseline [OF Suc.prems(1) first]
  from path_loop_lengths [OF s] evaluate_step_index(1) [OF ev]
  have len: "k < length (gt_mol_frac s)" "k < length (gt_wt_frac s)"
    "k < length (gt_vol_frac s)"
    by simp_all
  show ?case
  proof (cases "i = k")
    case True
    with step this_step have "w = v" by simp
    with True g base len show ?thesis by simp
  next
    case False
    with Suc.prems(2) have "i < k" by simp
    from Suc.IH [OF s this] False g show ?thesis by simp
  qed
qed

text \<open>
  With fractionation every stored increment is the difference of two neighbouring stored
  fractions (the stored fraction itself in the first pass).
\<close>

lemma path_loop_deltas:
  assumes "path_loop env P T data b0 o0 sys_in 1 k = Inr st" and "i < k"
  shows "d_gt_mol_frac st ! i =
           (if i = 0 then gt_mol_frac st ! 0
            else gt_mol_frac st ! i - gt_mol_frac st ! (i - 1)) \<and>
         d_gt_wt_frac st ! i =
           (if i = 0 then gt_wt_frac st ! 0
            else gt_wt_frac st ! i - gt_wt_frac st ! (i - 1))"
  using assms
proof (induction k arbitrary: st)
  case 0
  then show ?case by simp
next
  case (Suc k)
  from Suc.prems(1) obtain s w where s: "path_loop env P T data b0 o0 sys_in 1 k = Inr s"
    and ev: "evaluate_step env P T data sys_in k s = Inr w"
    by (rule path_loop_Suc_elim)
  from ev have step: "step_at env P T data b0 o0 sys_in 1 k = Inr w"
    by (simp only: step_at_loop [OF s])
  note g = path_loop_Suc_growth(1,2) [OF Suc.prems(1) s step]
  note d = path_loop_Suc_deltas [OF Suc.prems(1) s]
  from path_loop_lengths [OF s] evaluate_step_index(1) [OF ev]
  have len: "k < length (d_gt_mol_frac s)" "k < length (d_gt_wt_frac s)"
    by simp_all
  show ?case
  proof (cases "i = k")
    case True
    with d len show ?thesis by simp
  next
    case False
    with Suc.prems(2) have less: "i < k" by simp
    then have apart: "i \<noteq> k" "i - 1 \<noteq> k" "0 \<noteq> k" by simp_all
    have "gt_mol_frac st ! i = gt_mol_frac s ! i" "gt_mol_frac st ! (i - 1) = gt_mol_frac s ! (i - 1)"
      "gt_mol_frac st ! 0 = gt_mol_frac s ! 0"
      "gt_wt_frac st ! i = gt_wt_frac s ! i" "gt_wt_frac st ! (i - 1) = gt_wt_frac s ! (i - 1)"
      "gt_wt_frac st ! 0 = gt_wt_frac s ! 0"
      using apart by (simp_all add: g)
    moreover have "d_gt_mol_frac st ! i = d_gt_mol_frac s ! i"
      "d_gt_wt_frac st ! i = d_gt_wt_frac s ! i"
      using apart by (simp_all add: d)
    ultimately show ?thesis using Suc.IH [OF s less] by simp
  qed
qed

lemma garnet_over_path_elim:
  assumes "garnet_over_path env P T data b0 o0 sys_in fr = Inr res"
  obtains st where "path_loop env P T data b0 o0 sys_in fr (length P) = Inr st"
    and "gt_mol_frac res = gt_mol_frac st" and "gt_wt_frac res = gt_wt_frac st"
    and "gt_vol_frac res = gt_vol_frac st" and "d_gt_mol_frac res = d_gt_mol_frac st"
    and "d_gt_wt_frac res = d_gt_wt_frac st"
  using assms by (auto simp: garnet_over_path_def split: sum.splits)

section \<open>Runs on the stub solver\<close>

lemma stub_ids:
  "same_name_ids (stub_output f b) ''g'' = [0]"
  "same_name_ids (stub_output f b) ''q'' = [Suc 0]"
  by (simp_all add: same_name_ids_def stub_output_def upt_rec)

lemma stub_raw_volume:
  "raw_volume (stub_output f b) ''g'' = Inr f"
  "raw_volume (stub_output f b) ''q'' = Inr (1 - f)"
  by (simp_all add: raw_volume_def stub_ids)
    (simp_all add: stub_output_def phase_rho_def list_get_def)

lemma stub_volume_array: "volume_array (stub_output f b) = Inr [f, 1 - f]"
proof -
  have "ph (stub_output f b) = [''g'', ''q'']"
    by (simp add: stub_output_def)
  then have "map_result (raw_volume (stub_output f b)) (ph (stub_output f b)) = Inr [f, 1 - f]"
    by (simp add: stub_raw_volume)
  then show ?thesis by (simp add: volume_array_def)
qed

lemma stub_point_eval:
  "gt_single_point_calc_endmembers (stub_env a) p t () b ox s = Inr (stub_point (a + t / 100) b)"
proof -
  have "extract_phase_vol_frac ''g'' (stub_output (a + t / 100) b) = Inr (a + t / 100)"
    by (simp add: extract_phase_vol_frac_def stub_volume_array)
      (simp add: stub_output_def list_get_def)
  moreover have "''g'' \<in> set (ph (stub_output (a + t / 100) b))"
    by (simp add: stub_output_def)
  moreover have "extract_phase_mol_frac ''g'' (stub_output (a + t / 100) b) = a + t / 100"
    "extract_phase_wt_frac ''g'' (stub_output (a + t / 100) b) = a + t / 100"
    "extract_end_member_mol_frac ''g'' (stub_output (a + t / 100) b) ''py'' = 3 / 5"
    "extract_end_member_mol_frac ''g'' (stub_output (a + t / 100) b) ''alm'' = 3 / 10"
    "extract_end_member_mol_frac ''g'' (stub_output (a + t / 100) b) ''spss'' = 0"
    "extract_end_member_mol_frac ''g'' (stub_output (a + t / 100) b) ''gr'' = 1 / 10"
    "extract_end_member_mol_frac ''g'' (stub_output (a + t / 100) b) ''kho'' = 0"
    by (simp_all add: extract_phase_mol_frac_def extract_phase_wt_frac_def
        extract_end_member_mol_frac_def stub_output_def list_get_def)
  ultimately show ?thesis
    by (simp add: gt_single_point_calc_endmembers_def stub_env_def stub_solver_def
        stub_point_def)
qed

lemma stub_step:
  assumes "i < length P" and "i < length T"
  shows "evaluate_step (stub_env a) P T () s i st =
           Inr (stub_point (a + T ! i / 100) (X st), 3 / 5, 0, 3 / 10, 1 / 10)"
proof -
  have "calculate_molar_fractions (stub_env a)
          [(''py'', 3 / 5), (''alm'', 3 / 10), (''gr'', 1 / 10), (''spss'', 0), (''kho'', 0)]
        = Inr [(''Mg'', 3 / 5), (''Fe'', 3 / 10), (''Mn'', 0), (''Ca'', 1 / 10)]"
    by (simp add: stub_env_def stub_converter_def dict_get_def)
  with assms show ?thesis
    by (simp add: evaluate_step_def list_get_def stub_point_eval)
      (simp add: stub_point_def dict_get_def)
qed

lemma stub_run_plain:
  "garnet_over_path (stub_env 0) [1, 1, 1] [0, 5, 12] () [10, 20] [''FeO'', ''SiO2''] ''wt'' 0
     = Inr stub_growth"
  by (simp add: garnet_over_path_def numeral_3_eq_3 loop_body_def stub_step init_state_def
      record_point_def Let_def stub_point_def stub_growth_def)

lemma stub_run_shifted:
  "garnet_over_path (stub_env (1 / 5)) [1, 1, 1] [0, 5, 12] () [10, 20] [''FeO'', ''SiO2''] ''wt'' 0
     = Inr stub_growth"
  by (simp add: garnet_over_path_def numeral_3_eq_3 loop_body_def stub_step init_state_def
      record_point_def Let_def stub_point_def stub_growth_def)

lemma stub_run_other_basis:
  "garnet_over_path (stub_env 0) [1, 1, 1] [0, 5, 12] () [10, 20] [''FeO'', ''SiO2''] ''vol'' 1
     = Inr stub_growth_fractionated"
  by (simp add: garnet_over_path_def numeral_3_eq_3 loop_body_def stub_step init_state_def
      record_point_def Let_def stub_point_def store_increments_def fractionate_bulk_def
      stub_output_def stub_growth_fractionated_def)

lemma stub_run_wt:
  "garnet_over_path (stub_env 0) [1, 1, 1] [0, 5, 12] () [10, 20] [''FeO'', ''SiO2''] ''wt'' 1
     = Inr stub_growth_fractionated"
  by (simp add: garnet_over_path_def numeral_3_eq_3 loop_body_def stub_step init_state_def
      record_point_def Let_def stub_point_def store_increments_def fractionate_bulk_def
      stub_output_def stub_growth_fractionated_def list_get_def deplete_def np_binop_def)

lemma stub_run_mol:
  "garnet_over_path (stub_env 0) [1, 1, 1] [0, 5, 12] () [10, 20] [''FeO'', ''SiO2''] ''mol'' 1
     = Inr stub_growth_fractionated"
  by (simp add: garnet_over_path_def numeral_3_eq_3 loop_body_def stub_step init_state_def
      record_point_def Let_def stub_point_def store_increments_def fractionate_bulk_def
      stub_output_def stub_growth_fractionated_def list_get_def deplete_def np_binop_def)

lemma stub_points_plain:
  "point_at (stub_env a) [1, 1, 1] [0, 5, 12] () [10, 20] ox s 0 0 = Inr (stub_point a [10, 20])"
  "point_at (stub_env a) [1, 1, 1] [0, 5, 12] () [10, 20] ox s 0 (Suc 0)
     = Inr (stub_point (a + 1 / 20) [10, 20])"
  "point_at (stub_env a) [1, 1, 1] [0, 5, 12] () [10, 20] ox s 0 (Suc (Suc 0))
     = Inr (stub_point (a + 3 / 25) [10, 20])"
  by (simp_all add: point_at_def step_at_def loop_body_def stub_step init_state_def
      record_point_def Let_def)

lemma stub_points_fractionated:
  "point_at (stub_env 0) [1, 1, 1] [0, 5, 12] () [10, 20] ox s 1 0 = Inr (stub_point 0 [10, 20])"
  "point_at (stub_env 0) [1, 1, 1] [0, 5, 12] () [10, 20] ox s 1 (Suc 0)
     = Inr (stub_point (1 / 20) [10, 20])"
  by (simp_all add: point_at_def step_at_def loop_body_def stub_step init_state_def
      record_point_def Let_def stub_point_def store_increments_def fractionate_bulk_def)

lemma stub_step_other_basis:
  "step_at (stub_env 0) [1, 1, 1] [0, 5, 12] () [10, 20] ox ''vol'' 1 (Suc 0)
     = Inr (stub_point (1 / 20) [10, 20], 3 / 5, 0, 3 / 10, 1 / 10)"
  by (simp add: step_at_def loop_body_def stub_step init_state_def
      record_point_def Let_def stub_point_def store_increments_def fractionate_bulk_def)

lemma quartz_step:
  assumes "i < length P" and "i < length T"
  shows "evaluate_step quartz_env P T () s i st = Inr (quartz_point (X st), 0, 0, 0, 0)"
proof -
  have "gt_single_point_calc_endmembers quartz_env (P ! i) (T ! i) () (X st) (Xoxides st) s
          = Inr (quartz_point (X st))"
    by (simp add: gt_single_point_calc_endmembers_def quartz_env_def quartz_output_def
        quartz_point_def)
  moreover have "calculate_molar_fractions quartz_env
          [(''py'', 0), (''alm'', 0), (''gr'', 0), (''spss'', 0), (''kho'', 0)]
        = Inr [(''Mg'', 0), (''Fe'', 0), (''Mn'', 0), (''Ca'', 0)]"
    by (simp add: quartz_env_def stub_converter_def dict_get_def)
  ultimately show ?thesis using assms
    by (simp add: evaluate_step_def list_get_def)
      (simp add: quartz_point_def dict_get_def)
qed

lemma quartz_run:
  "garnet_over_path quartz_env [1, 1] [0, 5] () [10, 20] [''FeO'', ''SiO2''] ''wt'' 1
     = Inr quartz_growth"
  by (simp add: garnet_over_path_def numeral_2_eq_2 loop_body_def quartz_step init_state_def
      record_point_def Let_def quartz_point_def store_increments_def fractionate_bulk_def
      quartz_growth_def)

lemma quartz_points:
  "point_at quartz_env [1, 1] [0, 5] () [10, 20] ox s 1 0 = Inr (quartz_point [10, 20])"
  by (simp add: point_at_def step_at_def quartz_step init_state_def)

section \<open>The stored fractions and increments\<close>

text \<open>
  Claim C6. For a path of at least one point that \<open>garnet_over_path\<close> completes, the
  first entry of the returned mole-fraction array and of the returned weight-fraction
  array is 0, whatever fractions the evaluator produced at the first point: the first
  pass subtracts the first point's fraction from itself, and no later pass writes the
  entry again.
\<close>

theorem first_growth_is_zero:
  assumes "garnet_over_path env P T data b0 o0 sys_in fr = Inr res" and "1 \<le> length P"
  shows "gt_mol_frac res ! 0 = 0 \<and> gt_wt_frac res ! 0 = 0"
proof -
  from assms(1) obtain st where st: "path_loop env P T data b0 o0 sys_in fr (length P) = Inr st"
    and res: "gt_mol_frac res = gt_mol_frac st" "gt_wt_frac res = gt_wt_frac st"
    by (rule garnet_over_path_elim)
  from assms(2) have pos: "0 < length P" by (cases P) simp_all
  from path_loop_steps [OF st pos]
  obtain v0 where first: "step_at env P T data b0 o0 sys_in fr 0 = Inr v0" ..
  from path_loop_growth [OF st pos first first] res show ?thesis by simp
qed

text \<open>The stub run whose first point already holds a fifth of garnet.\<close>

theorem first_growth_is_zero_witness:
  "garnet_over_path (stub_env (1 / 5)) [1, 1, 1] [0, 5, 12] () [10, 20] [''FeO'', ''SiO2''] ''wt'' 0
     = Inr stub_growth \<and>
   point_at (stub_env (1 / 5)) [1, 1, 1] [0, 5, 12] () [10, 20] [''FeO'', ''SiO2''] ''wt'' 0 0
     = Inr (stub_point (1 / 5) [10, 20]) \<and>
   gt_frac (stub_point (1 / 5) [10, 20]) = 1 / 5 \<and>
   gt_mol_frac stub_growth ! 0 = 0 \<and> gt_wt_frac stub_growth ! 0 = 0"
  using first_growth_is_zero [OF stub_run_shifted] stub_run_shifted
    stub_points_plain(1) [of "1 / 5"]
  by (simp add: stub_point_def)

text \<open>
  Claim C5. When \<open>fractionate\<close> does not equal \<^verbatim>\<open>True\<close>, every pass of a completed
  run hands the solver the bulk vector the caller passed in: \<open>X\<close> is never assigned. The
  statement holds for every path length, in particular from two points on.
\<close>

theorem bulk_fixed_without_fractionation:
  assumes "garnet_over_path env P T data b0 o0 sys_in fr = Inr res"
    and "fr \<noteq> 1" and "i < length P"
  shows "bulk_at env P T data b0 o0 sys_in fr i = Inr b0"
proof -
  from assms(1) obtain st where st: "path_loop env P T data b0 o0 sys_in fr (length P) = Inr st"
    by (rule garnet_over_path_elim)
  from assms(3) have "i \<le> length P" by simp
  from path_loop_prefix [OF st this]
  obtain s where s: "path_loop env P T data b0 o0 sys_in fr i = Inr s" ..
  from path_loop_no_fractionation [OF assms(2) s] s show ?thesis
    by (simp add: bulk_at_def)
qed

theorem bulk_fixed_without_fractionation_witness:
  "bulk_at (stub_env 0) [1, 1, 1] [0, 5, 12] () [10, 20] [''FeO'', ''SiO2''] ''wt'' 0 0
     = Inr [10, 20] \<and>
   bulk_at (stub_env 0) [1, 1, 1] [0, 5, 12] () [10, 20] [''FeO'', ''SiO2''] ''wt'' 0 1
     = Inr [10, 20] \<and>
   bulk_at (stub_env 0) [1, 1, 1] [0, 5, 12] () [10, 20] [''FeO'', ''SiO2''] ''wt'' 0 2
     = Inr [10, 20]"
  using bulk_fixed_without_fractionation [OF stub_run_plain, of 0]
    bulk_fixed_without_fractionation [OF stub_run_plain, of 1]
    bulk_fixed_without_fractionation [OF stub_run_plain, of 2]
  by simp

text \<open>
  The two increment arrays are allocated before the loop and returned after it, but
  written only inside \<^verbatim>\<open>if fractionate == True\<close>. In a completed run with
  fractionation the increment of the pass \<open>i\<close> is the stored fraction of the first pass
  for \<open>i = 0\<close> and the difference of the stored fractions of the passes \<open>i\<close> and
  \<open>i - 1\<close> otherwise; in a run without fractionation the arrays keep their zeros.
\<close>

lemma increments_follow_growth:
  assumes "garnet_over_path env P T data b0 o0 sys_in fr = Inr res" and "i < length P"
  shows "d_gt_mol_frac res ! i =
           (if fr = 1
            then (if i = 0 then gt_mol_frac res ! 0
                  else gt_mol_frac res ! i - gt_mol_frac res ! (i - 1))
            else 0) \<and>
         d_gt_wt_frac res ! i =
           (if fr = 1
            then (if i = 0 then gt_wt_frac res ! 0
                  else gt_wt_frac res ! i - gt_wt_frac res ! (i - 1))
            else 0)"
proof -
  from assms(1) obtain st where st: "path_loop env P T data b0 o0 sys_in fr (length P) = Inr st"
    and res: "gt_mol_frac res = gt_mol_frac st" "gt_wt_frac res = gt_wt_frac st"
      "d_gt_mol_frac res = d_gt_mol_frac st" "d_gt_wt_frac res = d_gt_wt_frac st"
    by (rule garnet_over_path_elim)
  show ?thesis
  proof (cases "fr = 1")
    case True
    with st have "path_loop env P T data b0 o0 sys_in 1 (length P) = Inr st" by simp
    from path_loop_deltas [OF this assms(2)] True res show ?thesis by simp
  next
    case False
    from path_loop_no_fractionation [OF False st] False res assms(2) show ?thesis by simp
  qed
qed

text \<open>
  Claim C1 at the path of its scenario: three points with raw garnet mole fractions 0,
  0.05 and 0.12. The stored fractions are those values. With fractionation off, the
  default, the returned mole increments are 0, 0, 0 and not 0, 0.05, 0.07: the third
  increment is not the difference of the third and the second stored fraction. The same
  path with fractionation on returns 0, 0.05, 0.07 (the stub's garnet mode does not
  depend on the bulk vector).
\<close>

theorem increments_without_fractionation_are_zero:
  "garnet_over_path (stub_env 0) [1, 1, 1] [0, 5, 12] () [10, 20] [''FeO'', ''SiO2''] ''wt'' 0
     = Inr stub_growth \<and>
   point_at (stub_env 0) [1, 1, 1] [0, 5, 12] () [10, 20] [''FeO'', ''SiO2''] ''wt'' 0 0
     = Inr (stub_point 0 [10, 20]) \<and>
   point_at (stub_env 0) [1, 1, 1] [0, 5, 12] () [10, 20] [''FeO'', ''SiO2''] ''wt'' 0 1
     = Inr (stub_point (1 / 20) [10, 20]) \<and>
   point_at (stub_env 0) [1, 1, 1] [0, 5, 12] () [10, 20] [''FeO'', ''SiO2''] ''wt'' 0 2
     = Inr (stub_point (3 / 25) [10, 20]) \<and>
   gt_mol_frac stub_growth = [0, 1 / 20, 3 / 25] \<and>
   d_gt_mol_frac stub_growth = [0, 0, 0] \<and>
   d_gt_wt_frac stub_growth = [0, 0, 0] \<and>
   d_gt_mol_frac stub_growth \<noteq> [0, 1 / 20, 7 / 100] \<and>
   d_gt_mol_frac stub_growth ! 2 \<noteq> gt_mol_frac stub_growth ! 2 - gt_mol_frac stub_growth ! 1 \<and>
   garnet_over_path (stub_env 0) [1, 1, 1] [0, 5, 12] () [10, 20] [''FeO'', ''SiO2''] ''wt'' 1
     = Inr stub_growth_fractionated \<and>
   gt_mol_frac stub_growth_fractionated = [0, 1 / 20, 3 / 25] \<and>
   d_gt_mol_frac stub_growth_fractionated = [0, 1 / 20, 7 / 100]"
  using stub_run_plain stub_run_wt stub_points_plain [of 0 "[''FeO'', ''SiO2'']" "''wt''"]
  by (simp add: stub_growth_def stub_growth_fractionated_def numeral_2_eq_2)

text \<open>
  Claim C7, as the code has it. The arrays \<open>garnet_over_path\<close> returns hold, for every
  pass \<open>i\<close> of a completed run, the mole, weight and volume fraction of that pass minus
  the fraction of the first pass. The raw fractions are not returned.
\<close>

theorem stored_fractions_are_relative:
  assumes "garnet_over_path env P T data b0 o0 sys_in fr = Inr res" and "i < length P"
  shows "\<exists>r r0. point_at env P T data b0 o0 sys_in fr i = Inr r \<and>
           point_at env P T data b0 o0 sys_in fr 0 = Inr r0 \<and>
           gt_mol_frac res ! i = gt_frac r - gt_frac r0 \<and>
           gt_wt_frac res ! i = gt_wt r - gt_wt r0 \<and>
           gt_vol_frac res ! i = gt_vol r - gt_vol r0"
proof -
  from assms(1) obtain st where st: "path_loop env P T data b0 o0 sys_in fr (length P) = Inr st"
    and res: "gt_mol_frac res = gt_mol_frac st" "gt_wt_frac res = gt_wt_frac st"
      "gt_vol_frac res = gt_vol_frac st"
    by (rule garnet_over_path_elim)
  from assms(2) have pos: "0 < length P" by (cases P) simp_all
  from path_loop_steps [OF st pos]
  obtain v0 where first: "step_at env P T data b0 o0 sys_in fr 0 = Inr v0" ..
  from path_loop_steps [OF st assms(2)]
  obtain v where this_step: "step_at env P T data b0 o0 sys_in fr i = Inr v" ..
  from first this_step
  have "point_at env P T data b0 o0 sys_in fr i = Inr (fst v)"
    "point_at env P T data b0 o0 sys_in fr 0 = Inr (fst v0)"
    by (simp_all add: point_at_def)
  with path_loop_growth [OF st assms(2) this_step first] res show ?thesis by simp
qed

theorem stored_fractions_are_relative_witness:
  "point_at (stub_env (1 / 5)) [1, 1, 1] [0, 5, 12] () [10, 20] [''FeO'', ''SiO2''] ''wt'' 0 1
     = Inr (stub_point (1 / 4) [10, 20]) \<and>
   point_at (stub_env (1 / 5)) [1, 1, 1] [0, 5, 12] () [10, 20] [''FeO'', ''SiO2''] ''wt'' 0 0
     = Inr (stub_point (1 / 5) [10, 20]) \<and>
   gt_mol_frac stub_growth ! 1 = 1 / 4 - 1 / 5 \<and>
   gt_wt_frac stub_growth ! 1 = 1 / 4 - 1 / 5 \<and>
   gt_vol_frac stub_growth ! 1 = 1 / 4 - 1 / 5"
  using stored_fractions_are_relative [OF stub_run_shifted, of 1]
    stub_points_plain(1,2) [of "1 / 5" "[''FeO'', ''SiO2'']" "''wt''"]
  by (auto simp: stub_point_def)

text \<open>
  The raw fractions cannot be read off the result: two stub runs whose raw garnet
  fractions differ by a fifth at every point return the same nine arrays.
\<close>

theorem raw_fractions_not_returned_counterexample:
  "garnet_over_path (stub_env 0) [1, 1, 1] [0, 5, 12] () [10, 20] [''FeO'', ''SiO2''] ''wt'' 0
     = Inr stub_growth \<and>
   garnet_over_path (stub_env (1 / 5)) [1, 1, 1] [0, 5, 12] () [10, 20] [''FeO'', ''SiO2''] ''wt'' 0
     = Inr stub_growth \<and>
   point_at (stub_env 0) [1, 1, 1] [0, 5, 12] () [10, 20] [''FeO'', ''SiO2''] ''wt'' 0 1
     = Inr (stub_point (1 / 20) [10, 20]) \<and>
   point_at (stub_env (1 / 5)) [1, 1, 1] [0, 5, 12] () [10, 20] [''FeO'', ''SiO2''] ''wt'' 0 1
     = Inr (stub_point (1 / 4) [10, 20]) \<and>
   gt_frac (stub_point (1 / 20) [10, 20]) = 1 / 20 \<and>
   gt_frac (stub_point (1 / 4) [10, 20]) = 1 / 4 \<and>
   gt_mol_frac stub_growth ! 1 = 1 / 20"
  using stub_run_plain stub_run_shifted
    stub_points_plain(2) [of 0 "[''FeO'', ''SiO2'']" "''wt''"]
    stub_points_plain(2) [of "1 / 5" "[''FeO'', ''SiO2'']" "''wt''"]
  by (simp add: stub_point_def stub_growth_def)

section \<open>The fractionation update\<close>

text \<open>An entry of the stored arrays is the same in every later state of the run.\<close>

lemma growth_stable:
  assumes "path_loop env P T data b0 o0 sys_in fr n = Inr st"
    and "path_loop env P T data b0 o0 sys_in fr m = Inr st'"
    and "j < n" and "j < m"
  shows "gt_mol_frac st ! j = gt_mol_frac st' ! j \<and> gt_wt_frac st ! j = gt_wt_frac st' ! j"
proof -
  from path_loop_steps [OF assms(1,3)]
  obtain v where this_step: "step_at env P T data b0 o0 sys_in fr j = Inr v" ..
  from assms(3) have "0 < n" by simp
  from path_loop_steps [OF assms(1) this]
  obtain v0 where first: "step_at env P T data b0 o0 sys_in fr 0 = Inr v0" ..
  from path_loop_growth [OF assms(1,3) this_step first]
    path_loop_growth [OF assms(2,4) this_step first]
  show ?thesis by simp
qed

lemma delta_stable:
  assumes "path_loop env P T data b0 o0 sys_in 1 n = Inr st"
    and "path_loop env P T data b0 o0 sys_in 1 m = Inr st'"
    and "i < n" and "i < m"
  shows "d_gt_mol_frac st ! i = d_gt_mol_frac st' ! i \<and>
         d_gt_wt_frac st ! i = d_gt_wt_frac st' ! i"
proof -
  from assms(3,4) have "0 < n" "0 < m" "i - 1 < n" "i - 1 < m" by simp_all
  from growth_stable [OF assms(1,2,3,4)] growth_stable [OF assms(1,2) this(1,2)]
    growth_stable [OF assms(1,2) this(3,4)]
    path_loop_deltas [OF assms(1,3)] path_loop_deltas [OF assms(2,4)]
  show ?thesis by simp
qed

text \<open>What a completed run knows about its pass \<open>i\<close>.\<close>

lemma run_pass:
  assumes "garnet_over_path env P T data b0 o0 sys_in fr = Inr res" and "i < length P"
    and "point_at env P T data b0 o0 sys_in fr i = Inr r"
  obtains st s s' v where "path_loop env P T data b0 o0 sys_in fr (length P) = Inr st"
    and "path_loop env P T data b0 o0 sys_in fr i = Inr s"
    and "path_loop env P T data b0 o0 sys_in fr (Suc i) = Inr s'"
    and "evaluate_step env P T data sys_in i s = Inr v" and "fst v = r"
    and "fr = 1 \<longrightarrow>
           fractionate_bulk sys_in i r (store_increments i (record_point i v s)) = Inr s'"
    and "fr \<noteq> 1 \<longrightarrow> s' = record_point i v s"
    and "d_gt_mol_frac res = d_gt_mol_frac st" and "d_gt_wt_frac res = d_gt_wt_frac st"
proof -
  from assms(1) obtain st where st: "path_loop env P T data b0 o0 sys_in fr (length P) = Inr st"
    and res: "d_gt_mol_frac res = d_gt_mol_frac st" "d_gt_wt_frac res = d_gt_wt_frac st"
    by (rule garnet_over_path_elim)
  from assms(2) have "Suc i \<le> length P" by simp
  from path_loop_prefix [OF st this]
  obtain s' where s': "path_loop env P T data b0 o0 sys_in fr (Suc i) = Inr s'" ..
  then obtain s v where s: "path_loop env P T data b0 o0 sys_in fr i = Inr s"
    and ev: "evaluate_step env P T data sys_in i s = Inr v"
    and on: "fr = 1 \<longrightarrow>
           fractionate_bulk sys_in i (fst v) (store_increments i (record_point i v s)) = Inr s'"
    and off: "fr \<noteq> 1 \<longrightarrow> s' = record_point i v s"
    by (rule path_loop_Suc_elim)
  from assms(3) s ev have "fst v = r"
    by (simp add: point_at_def step_at_def)
  with that [OF st s s' ev] on off res show thesis by simp
qed

text \<open>
  Claim C2. In a completed run with fractionation, let \<open>r\<close> be the point evaluated in
  the pass \<open>i\<close>, with a positive raw garnet mole fraction, and \<open>k\<close> the position of
  \<open>g\<close> in its phase list. Then the oxide list handed to the pass \<open>i + 1\<close> is the
  solver's oxide list of \<open>r\<close>. On the basis \<open>wt\<close> the bulk vector handed to the pass
  \<open>i + 1\<close> is, entry by entry, \<open>b - b * c * d\<close> with \<open>b\<close> from the solver's weight bulk
  vector of \<open>r\<close>, \<open>c\<close> from the weight composition of \<open>SS_vec[k]\<close> of \<open>r\<close> and \<open>d\<close> the
  returned weight increment of the pass \<open>i\<close>; on the basis \<open>mol\<close> the same with the
  molar bulk vector, the molar composition and the mole increment. The two vectors are
  taken to have one length, as an elementwise product needs.
\<close>

theorem fractionation_depletes_bulk:
  assumes run: "garnet_over_path env P T data b0 o0 sys_in 1 = Inr res"
    and i: "i < length P"
    and point: "point_at env P T data b0 o0 sys_in 1 i = Inr r"
    and garnet: "0 < gt_frac r"
    and k: "list_index (ph (out r)) ''g'' = Inr k"
  shows "oxides_at env P T data b0 o0 sys_in 1 (Suc i) = Inr (oxides (out r)) \<and>
         (sys_in = ''wt'' \<and> length (bulk_wt (out r)) = length (Comp_wt (SS_vec (out r) ! k)) \<longrightarrow>
            k < length (SS_vec (out r)) \<and>
            bulk_at env P T data b0 o0 sys_in 1 (Suc i) =
              Inr (map2 (\<lambda>b c. b - b * c * d_gt_wt_frac res ! i)
                    (bulk_wt (out r)) (Comp_wt (SS_vec (out r) ! k)))) \<and>
         (sys_in = ''mol'' \<and> length (bulk (out r)) = length (Comp (SS_vec (out r) ! k)) \<longrightarrow>
            k < length (SS_vec (out r)) \<and>
            bulk_at env P T data b0 o0 sys_in 1 (Suc i) =
              Inr (map2 (\<lambda>b c. b - b * c * d_gt_mol_frac res ! i)
                    (bulk (out r)) (Comp (SS_vec (out r) ! k))))"
proof -
  from run i point obtain st s s' v where
    st: "path_loop env P T data b0 o0 sys_in 1 (length P) = Inr st"
    and s': "path_loop env P T data b0 o0 sys_in 1 (Suc i) = Inr s'"
    and fb: "(1::int) = 1 \<longrightarrow>
           fractionate_bulk sys_in i r (store_increments i (record_point i v s)) = Inr s'"
    and res: "d_gt_mol_frac res = d_gt_mol_frac st" "d_gt_wt_frac res = d_gt_wt_frac st"
    by (rule run_pass)
  define s1 where "s1 = store_increments i (record_point i v s)"
  from fb have fb: "fractionate_bulk sys_in i r s1 = Inr s'"
    by (simp add: s1_def)
  from i have "i < Suc i" "Suc i \<le> length P" by simp_all
  from delta_stable [OF st s' i this(1)] res fractionate_bulk_growth(7,8) [OF fb]
  have d: "d_gt_mol_frac s1 ! i = d_gt_mol_frac res ! i"
    "d_gt_wt_frac s1 ! i = d_gt_wt_frac res ! i"
    by simp_all
  have ox: "oxides_at env P T data b0 o0 sys_in 1 (Suc i) = Inr (oxides (out r))"
    unfolding oxides_at_def using s' fractionate_bulk_oxides [OF fb garnet] by simp
  have bulk: "bulk_at env P T data b0 o0 sys_in 1 (Suc i) = Inr (X s')"
    unfolding bulk_at_def using s' by simp
  have wt: "sys_in = ''wt'' \<and> length (bulk_wt (out r)) = length (Comp_wt (SS_vec (out r) ! k)) \<longrightarrow>
      k < length (SS_vec (out r)) \<and>
      bulk_at env P T data b0 o0 sys_in 1 (Suc i) =
        Inr (map2 (\<lambda>b c. b - b * c * d_gt_wt_frac res ! i)
              (bulk_wt (out r)) (Comp_wt (SS_vec (out r) ! k)))"
  proof (intro impI, elim conjE)
    assume basis: "sys_in = ''wt''"
      and len: "length (bulk_wt (out r)) = length (Comp_wt (SS_vec (out r) ! k))"
    from fb basis have "fractionate_bulk ''wt'' i r s1 = Inr s'" by simp
    from fractionate_bulk_wt [OF this garnet] k d(2)
    have "k < length (SS_vec (out r))"
      and "deplete (bulk_wt (out r)) (Comp_wt (SS_vec (out r) ! k)) (d_gt_wt_frac res ! i)
             = Inr (X s')"
      by auto
    with deplete_elementwise [OF this(2) len] bulk
    show "k < length (SS_vec (out r)) \<and>
      bulk_at env P T data b0 o0 sys_in 1 (Suc i) =
        Inr (map2 (\<lambda>b c. b - b * c * d_gt_wt_frac res ! i)
              (bulk_wt (out r)) (Comp_wt (SS_vec (out r) ! k)))"
      by simp
  qed
  have mol: "sys_in = ''mol'' \<and> length (bulk (out r)) = length (Comp (SS_vec (out r) ! k)) \<longrightarrow>
      k < length (SS_vec (out r)) \<and>
      bulk_at env P T data b0 o0 sys_in 1 (Suc i) =
        Inr (map2 (\<lambda>b c. b - b * c * d_gt_mol_frac res ! i)
              (bulk (out r)) (Comp (SS_vec (out r) ! k)))"
  proof (intro impI, elim conjE)
    assume basis: "sys_in = ''mol''"
      and len: "length (bulk (out r)) = length (Comp (SS_vec (out r) ! k))"
    from fb basis have "fractionate_bulk ''mol'' i r s1 = Inr s'" by simp
    from fractionate_bulk_mol [OF this garnet] k d(1)
    have "k < length (SS_vec (out r))"
      and "deplete (bulk (out r)) (Comp (SS_vec (out r) ! k)) (d_gt_mol_frac res ! i)
             = Inr (X s')"
      by auto
    with deplete_elementwise [OF this(2) len] bulk
    show "k < length (SS_vec (out r)) \<and>
      bulk_at env P T data b0 o0 sys_in 1 (Suc i) =
        Inr (map2 (\<lambda>b c. b - b * c * d_gt_mol_frac res ! i)
              (bulk (out r)) (Comp (SS_vec (out r) ! k)))"
      by simp
  qed
  from ox wt mol show ?thesis by (intro conjI)
qed

text \<open>
  The second pass of the stub path on both bases: the bulk vector \<open>[10, 20]\<close>, the
  garnet compositions \<open>[2/5, 1/5]\<close> by weight and \<open>[1/2, 1/4]\<close> by moles, the increment
  \<open>1/20\<close>.
\<close>

theorem fractionation_depletes_bulk_witness:
  "oxides_at (stub_env 0) [1, 1, 1] [0, 5, 12] () [10, 20] [''FeO'', ''SiO2''] ''wt'' 1 2
     = Inr [''SiO2'', ''FeO''] \<and>
   bulk_at (stub_env 0) [1, 1, 1] [0, 5, 12] () [10, 20] [''FeO'', ''SiO2''] ''wt'' 1 2
     = Inr [10 - 10 * (2 / 5) * (1 / 20), 20 - 20 * (1 / 5) * (1 / 20)] \<and>
   bulk_at (stub_env 0) [1, 1, 1] [0, 5, 12] () [10, 20] [''FeO'', ''SiO2''] ''mol'' 1 2
     = Inr [10 - 10 * (1 / 2) * (1 / 20), 20 - 20 * (1 / 4) * (1 / 20)]"
proof -
  have garnet: "0 < gt_frac (stub_point (1 / 20) [10, 20])"
    and k: "list_index (ph (out (stub_point (1 / 20) [10, 20]))) ''g'' = Inr 0"
    by (simp_all add: stub_point_def stub_output_def)
  have "(1::nat) < length [1, 1, 1 :: real]" by simp
  note wt = fractionation_depletes_bulk [OF stub_run_wt this
      stub_points_fractionated(2) [unfolded One_nat_def [symmetric]] garnet k]
    and mol = fractionation_depletes_bulk [OF stub_run_mol this
      stub_points_fractionated(2) [unfolded One_nat_def [symmetric]] garnet k]
  from wt mol show ?thesis
    by (simp add: stub_point_def stub_output_def stub_growth_fractionated_def numeral_2_eq_2)
qed

text \<open>
  Claim C3. In a completed run, if the point of the pass \<open>i\<close> has no garnet in its
  assemblage or a raw garnet mole fraction that is not positive, the pass \<open>i + 1\<close> is
  handed the bulk vector the pass \<open>i\<close> was handed. This holds whether fractionation is
  on or off; the claim is the case \<open>fr = 1\<close>.
\<close>

theorem bulk_kept_without_garnet:
  assumes run: "garnet_over_path env P T data b0 o0 sys_in fr = Inr res"
    and i: "i < length P"
    and point: "point_at env P T data b0 o0 sys_in fr i = Inr r"
    and none: "''g'' \<notin> set (ph (out r)) \<or> gt_frac r \<le> 0"
  shows "\<exists>b. bulk_at env P T data b0 o0 sys_in fr i = Inr b \<and>
             bulk_at env P T data b0 o0 sys_in fr (Suc i) = Inr b"
proof -
  from run i point obtain s s' v where
    s: "path_loop env P T data b0 o0 sys_in fr i = Inr s"
    and s': "path_loop env P T data b0 o0 sys_in fr (Suc i) = Inr s'"
    and ev: "evaluate_step env P T data sys_in i s = Inr v" and v: "fst v = r"
    and on: "fr = 1 \<longrightarrow>
           fractionate_bulk sys_in i r (store_increments i (record_point i v s)) = Inr s'"
    and off: "fr \<noteq> 1 \<longrightarrow> s' = record_point i v s"
    by (rule run_pass)
  from evaluate_step_point [OF ev] v none have no_garnet: "gt_frac r \<le> 0"
    by (auto dest: point_without_garnet)
  have "X s' = X s"
  proof (cases "fr = 1")
    case True
    with on have
      "fractionate_bulk sys_in i r (store_increments i (record_point i v s)) = Inr s'"
      by simp
    from fractionate_bulk_no_garnet [OF this no_garnet] show ?thesis
      by (simp add: store_increments_bulk record_point_bulk)
  next
    case False
    with off show ?thesis by (simp add: record_point_bulk)
  qed
  with s s' show ?thesis by (simp add: bulk_at_def)
qed

text \<open>
  With fractionation on: the first pass of the garnet stub, where garnet is listed with
  the fraction 0, and the first pass of the quartz stub, where garnet is not listed.
\<close>

theorem bulk_kept_without_garnet_witness:
  "gt_frac (stub_point 0 [10, 20]) = 0 \<and>
   bulk_at (stub_env 0) [1, 1, 1] [0, 5, 12] () [10, 20] [''FeO'', ''SiO2''] ''wt'' 1 0
     = Inr [10, 20] \<and>
   bulk_at (stub_env 0) [1, 1, 1] [0, 5, 12] () [10, 20] [''FeO'', ''SiO2''] ''wt'' 1 1
     = Inr [10, 20] \<and>
   ''g'' \<notin> set (ph (out (quartz_point [10, 20]))) \<and>
   bulk_at quartz_env [1, 1] [0, 5] () [10, 20] [''FeO'', ''SiO2''] ''wt'' 1 0
     = Inr [10, 20] \<and>
   bulk_at quartz_env [1, 1] [0, 5] () [10, 20] [''FeO'', ''SiO2''] ''wt'' 1 1
     = Inr [10, 20]"
proof -
  have zero: "''g'' \<notin> set (ph (out (stub_point 0 [10, 20]))) \<or> gt_frac (stub_point 0 [10, 20]) \<le> 0"
    by (simp add: stub_point_def)
  have absent: "''g'' \<notin> set (ph (out (quartz_point [10, 20]))) \<or> gt_frac (quartz_point [10, 20]) \<le> 0"
    by (simp add: quartz_point_def quartz_output_def)
  have "(0::nat) < length [1, 1, 1 :: real]" "(0::nat) < length [1, 1 :: real]" by simp_all
  note a = bulk_kept_without_garnet [OF stub_run_wt this(1) stub_points_fractionated(1) zero]
    and b = bulk_kept_without_garnet [OF quartz_run this(2) quartz_points absent]
  have "bulk_at (stub_env 0) [1, 1, 1] [0, 5, 12] () [10, 20] [''FeO'', ''SiO2''] ''wt'' 1 0
     = Inr [10, 20]"
    "bulk_at quartz_env [1, 1] [0, 5] () [10, 20] [''FeO'', ''SiO2''] ''wt'' 1 0 = Inr [10, 20]"
    by (simp_all add: bulk_at_def init_state_def)
  with a b show ?thesis
    by (auto simp: stub_point_def quartz_point_def quartz_output_def)
qed



text \<open>
  Claim C4, as the code has it. With fractionation on and a basis that is neither \<open>wt\<close>
  nor \<open>mol\<close>, the update raises nothing: whenever the point of the pass \<open>i\<close> is
  evaluated and converted without an exception, the pass completes, and the bulk vector
  it leaves is the one the caller passed in, as it was before the pass.
\<close>

theorem other_basis_skips_update:
  assumes basis: "sys_in \<noteq> ''wt''" "sys_in \<noteq> ''mol''"
    and step: "step_at env P T data b0 o0 sys_in 1 i = Inr v"
  shows "bulk_at env P T data b0 o0 sys_in 1 i = Inr b0 \<and>
         bulk_at env P T data b0 o0 sys_in 1 (Suc i) = Inr b0"
proof -
  from step obtain s where s: "path_loop env P T data b0 o0 sys_in 1 i = Inr s"
    and ev: "evaluate_step env P T data sys_in i s = Inr v"
    by (auto simp: step_at_def split: sum.splits)
  from evaluate_step_point [OF ev]
  have "0 < gt_frac (fst v) \<longrightarrow> ''g'' \<in> set (ph (out (fst v)))"
    by (auto dest: point_without_garnet)
  from fractionate_bulk_other_basis_succeeds [OF basis this]
  obtain s' where
    "fractionate_bulk sys_in i (fst v) (store_increments i (record_point i v s)) = Inr s'" ..
  with s ev have s': "path_loop env P T data b0 o0 sys_in 1 (Suc i) = Inr s'"
    by (simp add: loop_body_def)
  from path_loop_other_basis [OF basis s] path_loop_other_basis [OF basis s'] s s'
  show ?thesis by (simp add: bulk_at_def)
qed

theorem other_basis_skips_update_witness:
  "step_at (stub_env 0) [1, 1, 1] [0, 5, 12] () [10, 20] [''FeO'', ''SiO2''] ''vol'' 1 1
     = Inr (stub_point (1 / 20) [10, 20], 3 / 5, 0, 3 / 10, 1 / 10) \<and>
   bulk_at (stub_env 0) [1, 1, 1] [0, 5, 12] () [10, 20] [''FeO'', ''SiO2''] ''vol'' 1 1
     = Inr [10, 20] \<and>
   bulk_at (stub_env 0) [1, 1, 1] [0, 5, 12] () [10, 20] [''FeO'', ''SiO2''] ''vol'' 1 2
     = Inr [10, 20]"
proof -
  have basis: "''vol'' \<noteq> ''wt''" "''vol'' \<noteq> ''mol''" by simp_all
  from other_basis_skips_update [OF basis stub_step_other_basis] stub_step_other_basis
  show ?thesis by (simp add: numeral_2_eq_2)
qed

text \<open>
  Claim C4 as the claim states it fails: the stub path with fractionation on, the basis
  \<open>vol\<close> and a positive garnet fraction in its second and third pass returns its arrays;
  no exception ends the run.
\<close>

theorem other_basis_raises_nothing_counterexample:
  "garnet_over_path (stub_env 0) [1, 1, 1] [0, 5, 12] () [10, 20] [''FeO'', ''SiO2''] ''vol'' 1
     = Inr stub_growth_fractionated \<and>
   point_at (stub_env 0) [1, 1, 1] [0, 5, 12] () [10, 20] [''FeO'', ''SiO2''] ''vol'' 1 1
     = Inr (stub_point (1 / 20) [10, 20]) \<and>
   0 < gt_frac (stub_point (1 / 20) [10, 20]) \<and>
   ''vol'' \<noteq> ''wt'' \<and> ''vol'' \<noteq> ''mol''"
  using stub_run_other_basis stub_points_fractionated(2)
  by (simp add: stub_point_def)

end
